theory Spec2Isabelle
  imports Main "HOL-Library.Sublist" "HOL-Library.AList"
begin

section \<open>The wheel builder of databricks.labs.blueprint (wheels.py)\<close>

text \<open>
  A shallow embedding of the class \<open>Wheels\<close> of
  \<^verbatim>\<open>src/databricks/labs/blueprint/wheels.py\<close>. Every method takes the object and the
  world it runs in and returns its outcome (\<open>Inl\<close> for a raised exception) with the
  updated object and world.
\<close>

subsection \<open>Exceptions\<close>

datatype exc_class =
    OSError | ValueError | AttributeError | StopIteration
  | CalledProcessError | FileNotFoundError | FileExistsError
  | NotADirectoryError | IsADirectoryError | RemoteError

text \<open>An exception is its class and the text \<open>str(err)\<close> gives.\<close>

datatype error = Err exc_class string

fun err_class :: "error \<Rightarrow> exc_class" where
  "err_class (Err c m) = c"

fun err_str :: "error \<Rightarrow> string" where
  "err_str (Err c m) = m"

subsection \<open>Strings: \<open>str.split\<close>, \<open>str(int)\<close>, \<open>strftime\<close>\<close>

text \<open>Python's \<open>s.split(sep)\<close> for a one-character separator: never the empty list.\<close>

fun split_on :: "char \<Rightarrow> string \<Rightarrow> string list" where
  "split_on c [] = [[]]"
| "split_on c (x # xs) =
     (if x = c then [] # split_on c xs
      else (case split_on c xs of
              [] \<Rightarrow> [[x]]
            | y # ys \<Rightarrow> (x # y) # ys))"

definition is_digit :: "char \<Rightarrow> bool" where
  "is_digit c = (c \<in> set ''0123456789'')"

definition is_alpha :: "char \<Rightarrow> bool" where
  "is_alpha c =
     (c \<in> set ''abcdefghijklmnopqrstuvwxyzABCDEFGHIJKLMNOPQRSTUVWXYZ'')"

definition digit_char :: "nat \<Rightarrow> char" where
  "digit_char d = ''0123456789'' ! (d mod 10)"

text \<open>\<open>str(n)\<close> of a non-negative \<open>int\<close>: decimal, no leading zero.\<close>

fun str_nat :: "nat \<Rightarrow> string" where
  "str_nat n =
     (if n < 10 then [digit_char n] else str_nat (n div 10) @ [digit_char n])"

declare str_nat.simps [simp del]

text \<open>\<open>int(s)\<close> of a string of ASCII digits.\<close>

definition digit_val :: "char \<Rightarrow> nat" where
  "digit_val c = of_char c - 48"

definition int_of_str :: "string \<Rightarrow> nat" where
  "int_of_str s = foldl (\<lambda>a c. 10 * a + digit_val c) 0 s"

record datetime =
  year :: nat
  month :: nat
  day :: nat
  hour :: nat
  minute :: nat
  second :: nat

definition zero_pad :: "nat \<Rightarrow> nat \<Rightarrow> string" where
  "zero_pad k n = replicate (k - length (str_nat n)) (CHR ''0'') @ str_nat n"

text \<open>\<open>now.strftime("%Y%m%d%H%M%S")\<close>.\<close>

definition strftime :: "datetime \<Rightarrow> string" where
  "strftime t =
     zero_pad 4 (year t) @ zero_pad 2 (month t) @ zero_pad 2 (day t)
     @ zero_pad 2 (hour t) @ zero_pad 2 (minute t) @ zero_pad 2 (second t)"

subsection \<open>Semantic versions\<close>

record SemVer =
  major :: nat
  minor :: nat
  patch :: nat
  pre_release :: "string option"
  build :: "string option"

definition ident_char :: "char \<Rightarrow> bool" where
  "ident_char c = (is_digit c \<or> is_alpha c \<or> c = CHR ''-'')"

text \<open>A numeric identifier: \<open>0\<close>, or digits that do not start with \<open>0\<close>.\<close>

definition num_ok :: "string \<Rightarrow> bool" where
  "num_ok s = (s \<noteq> [] \<and> list_all is_digit s \<and> (s = ''0'' \<or> take 1 s \<noteq> ''0''))"

definition pre_ident_ok :: "string \<Rightarrow> bool" where
  "pre_ident_ok i =
     (i \<noteq> [] \<and> list_all ident_char i \<and> (if list_all is_digit i then num_ok i else True))"

definition build_ident_ok :: "string \<Rightarrow> bool" where
  "build_ident_ok i = (i \<noteq> [] \<and> list_all ident_char i)"

definition pre_ok :: "string option \<Rightarrow> bool" where
  "pre_ok p = (case p of None \<Rightarrow> True
               | Some s \<Rightarrow> list_all pre_ident_ok (split_on (CHR ''.'') s))"

definition build_ok :: "string option \<Rightarrow> bool" where
  "build_ok b = (case b of None \<Rightarrow> True
                 | Some s \<Rightarrow> list_all build_ident_ok (split_on (CHR ''.'') s))"

text \<open>The text after the first \<open>c\<close> of \<open>s\<close>, when there is one.\<close>

definition after_first :: "char \<Rightarrow> string \<Rightarrow> string option" where
  "after_first c s =
     (if c \<in> set s then Some (drop 1 (dropWhile (\<lambda>x. x \<noteq> c) s)) else None)"

definition before_first :: "char \<Rightarrow> string \<Rightarrow> string" where
  "before_first c s = takeWhile (\<lambda>x. x \<noteq> c) s"

text \<open>A pattern that ends in \<open>$\<close> also matches just before one final newline.\<close>

definition chomp :: "string \<Rightarrow> string" where
  "chomp s = (if s \<noteq> [] \<and> last s = CHR 0x0A then butlast s else s)"

text \<open>
  Modelled from the spec: \<open>SemVer.parse\<close> of \<open>databricks.sdk.mixins.compute\<close>, a
  library the source imports and that is not part of it. The spec gives its input as
  plain text \<open>major.minor.patch[-pre-release]\<close> and a semantic version as
  \<open>major.minor.patch[-pre-release][+build-metadata]\<close> following the common rules: three
  numeric identifiers, dot-separated pre-release identifiers after the first \<open>-\<close>,
  dot-separated build identifiers after the first \<open>+\<close>. One leading \<open>v\<close> (the tag
  \<open>v1.2.3\<close> of the spec's scenario) and one final newline (the output of the
  source-control tool ends with one) are accepted. A text that is not of this form
  raises \<open>ValueError\<close>.
\<close>

definition SemVer_parse :: "string \<Rightarrow> error + SemVer" where
  "SemVer_parse v0 =
     (if v0 = [] then Inl (Err ValueError (''Not a valid SemVer: '' @ v0))
      else
        let v = (if take 1 v0 \<noteq> ''v'' then CHR ''v'' # v0 else v0);
            body = chomp (drop 1 v);
            core = before_first (CHR ''+'') body;
            bld = after_first (CHR ''+'') body;
            nums = split_on (CHR ''.'') (before_first (CHR ''-'') core);
            pre = after_first (CHR ''-'') core
        in if length nums = 3 \<and> list_all num_ok nums \<and> pre_ok pre \<and> build_ok bld
           then Inr \<lparr>major = int_of_str (nums ! 0), minor = int_of_str (nums ! 1),
                     patch = int_of_str (nums ! 2), pre_release = pre, build = bld\<rparr>
           else Inl (Err ValueError (''Not a valid SemVer: '' @ v)))"

subsection \<open>Paths and the local file system\<close>

text \<open>
  A path is the list of its components, as \<open>pathlib\<close> keeps them. The file system is
  the list of its entries in the order the operating system enumerates them; an entry is
  a regular file with its content or a directory. Looking a path up finds its first
  entry. Permissions and links are not represented.
\<close>

type_synonym path = "string list"

datatype node = File string | Dir

type_synonym fs = "(path \<times> node) list"

definition path_exists :: "fs \<Rightarrow> path \<Rightarrow> bool" where
  "path_exists f p = (map_of f p \<noteq> None)"

text \<open>\<open>p.as_posix()\<close> of an absolute path.\<close>

definition as_posix :: "path \<Rightarrow> string" where
  "as_posix p = (if p = [] then ''/'' else concat (map (\<lambda>c. CHR ''/'' # c) p))"

definition is_dir :: "fs \<Rightarrow> path \<Rightarrow> bool" where
  "is_dir f p = (map_of f p = Some Dir)"

definition is_file :: "fs \<Rightarrow> path \<Rightarrow> bool" where
  "is_file f p = (case map_of f p of Some (File c) \<Rightarrow> True | _ \<Rightarrow> False)"

text \<open>\<open>p.name\<close>: the last component.\<close>

definition name :: "path \<Rightarrow> string" where
  "name p = (if p = [] then [] else last p)"

text \<open>
  \<open>Path(a) / s\<close> for a relative \<open>s\<close>: the components of \<open>s\<close> between its
  slashes, without the empty ones and the single dots.
\<close>

definition parts :: "string \<Rightarrow> path" where
  "parts s = filter (\<lambda>c. c \<noteq> [] \<and> c \<noteq> ''.'') (split_on (CHR ''/'') s)"

text \<open>
  \<open>os.makedirs(d)\<close>: the directory and its missing parents are created; a regular file
  on the way or an entry at \<open>d\<close> is an error.
\<close>

definition makedirs :: "path \<Rightarrow> fs \<Rightarrow> error + fs" where
  "makedirs d f =
     (if list_ex (is_file f) (prefixes d) then Inl (Err NotADirectoryError (as_posix d))
      else if path_exists f d then Inl (Err FileExistsError (as_posix d))
      else Inr (map (\<lambda>q. (q, Dir)) (filter (\<lambda>q. \<not> path_exists f q) (prefixes d)) @ f))"

text \<open>
  \<open>shutil.copytree(src, dst)\<close>: \<open>dst\<close> must not exist; it is created with its
  parents, and every entry below \<open>src\<close> is copied under the same relative path.
\<close>

definition copytree :: "path \<Rightarrow> path \<Rightarrow> fs \<Rightarrow> error + fs" where
  "copytree src dst f =
     (if \<not> is_dir f src then Inl (Err NotADirectoryError (as_posix src))
      else case makedirs dst f of
             Inl e \<Rightarrow> Inl e
           | Inr f1 \<Rightarrow>
               Inr (map (\<lambda>(p, n). (dst @ drop (length src) p, n))
                      (filter (\<lambda>(p, n). strict_prefix src p) f) @ f1))"

text \<open>
  \<open>p.open("w")\<close> followed by one \<open>write\<close>: the file is created or replaced; the
  parent must be a directory and \<open>p\<close> must not be one.
\<close>

definition write_text :: "path \<Rightarrow> string \<Rightarrow> fs \<Rightarrow> error + fs" where
  "write_text p c f =
     (if p = [] \<or> is_dir f p then Inl (Err IsADirectoryError (as_posix p))
      else if is_file f (butlast p) then Inl (Err NotADirectoryError (as_posix p))
      else if \<not> is_dir f (butlast p) then Inl (Err FileNotFoundError (as_posix p))
      else Inr (AList.update p (File c) f))"

text \<open>\<open>p.open("rb")\<close> and reading it to the end.\<close>

definition open_rb :: "fs \<Rightarrow> path \<Rightarrow> error + string" where
  "open_rb f p =
     (case map_of f p of
        None \<Rightarrow> Inl (Err FileNotFoundError (as_posix p))
      | Some Dir \<Rightarrow> Inl (Err IsADirectoryError (as_posix p))
      | Some (File c) \<Rightarrow> Inr c)"

text \<open>\<open>shutil.rmtree(d)\<close>: \<open>d\<close> and everything below it is removed.\<close>

definition rmtree :: "path \<Rightarrow> fs \<Rightarrow> fs" where
  "rmtree d f = filter (\<lambda>(p, n). \<not> prefix d p) f"

definition ends_with :: "string \<Rightarrow> string \<Rightarrow> bool" where
  "ends_with sfx s = (length sfx \<le> length s \<and> drop (length s - length sfx) s = sfx)"

text \<open>An entry directly in \<open>d\<close> whose name matches \<open>*.whl\<close>.\<close>

definition whl_in :: "path \<Rightarrow> path \<Rightarrow> bool" where
  "whl_in d p = (p \<noteq> [] \<and> butlast p = d \<and> ends_with ''.whl'' (last p))"

text \<open>
  \<open>Path(d).glob("*.whl")\<close>: the entries directly in \<open>d\<close> whose name ends in
  \<open>.whl\<close>, in the order of enumeration; nothing when \<open>d\<close> is not a directory.
\<close>

definition glob_whl :: "fs \<Rightarrow> path \<Rightarrow> path list" where
  "glob_whl f d =
     (if is_dir f d then map fst (filter (\<lambda>(p, n). whl_in d p) f) else [])"

text \<open>\<open>os.path.dirname\<close> of \<open>posixpath\<close>.\<close>

definition dirname :: "string \<Rightarrow> string" where
  "dirname p =
     (let head = rev (dropWhile (\<lambda>c. c \<noteq> CHR ''/'') (rev p))
      in if head \<noteq> [] \<and> \<not> list_all (\<lambda>c. c = CHR ''/'') head
         then rev (dropWhile (\<lambda>c. c = CHR ''/'') (rev head))
         else head)"

subsection \<open>The object and the world\<close>

datatype pyval = Str string | PathV path

text \<open>
  The fields the constructor sets are record fields; \<open>product\<close> and
  \<open>install_folder\<close> are what the install state given to the constructor answers.
  \<open>dyn\<close> holds the attributes assigned later, under the names the interpreter stores
  them: inside the class body the identifier \<open>self.__version\<close> is stored and read as
  \<open>_Wheels__version\<close>, whereas the string literal given to \<open>hasattr\<close> is looked up
  as it is written.
\<close>

record wheels =
  github_org :: string
  released_version :: string
  product :: string
  install_folder :: string
  dyn :: "string \<rightharpoonup> pyval"

definition class_names :: "string list" where
  "class_names =
     [''_ws'', ''_install_state'', ''_this_file'', ''_github_org'', ''_released_version'',
      ''__init__'', ''version'', ''__enter__'', ''__exit__'', ''upload_to_dbfs'',
      ''upload_to_wsfs'', ''_build_wheel'']"

definition hasattr :: "wheels \<Rightarrow> string \<Rightarrow> bool" where
  "hasattr self n = (n \<in> set class_names \<or> dyn self n \<noteq> None)"

definition getattr_str :: "wheels \<Rightarrow> string \<Rightarrow> error + string" where
  "getattr_str self n =
     (case dyn self n of
        Some (Str s) \<Rightarrow> Inr s
      | _ \<Rightarrow> Inl (Err AttributeError (''no attribute '' @ n)))"

definition getattr_path :: "wheels \<Rightarrow> string \<Rightarrow> error + path" where
  "getattr_path self n =
     (case dyn self n of
        Some (PathV p) \<Rightarrow> Inr p
      | _ \<Rightarrow> Inl (Err AttributeError (''no attribute '' @ n)))"

text \<open>\<open>Wheels(ws, install_state, released_version, github_org=org)\<close>.\<close>

definition init :: "string \<Rightarrow> string \<Rightarrow> string \<Rightarrow> string \<Rightarrow> wheels" where
  "init pname folder released org =
     \<lparr>github_org = org, released_version = released, product = pname,
      install_folder = folder, dyn = Map.empty\<rparr>"

datatype stream = PIPE | DEVNULL | STDOUT | Inherited

datatype event =
    Subprocess "string list" stream stream
  | LogDebug string
  | LogInfo string
  | DbfsMkdirs string
  | DbfsUpload string string bool
  | WorkspaceMkdirs string
  | WorkspaceUpload string string bool string

datatype rnode = RFile string | RDir

text \<open>
  The world: the local file system, the two remote stores, and what the collaborators
  answer. \<open>project_root\<close> is the outcome of \<open>find_project_root()\<close>. The \<open>n\<close>-th run
  of \<open>git describe --tags\<close> ends as \<open>git_describe n\<close>: an exception of the run or of
  decoding its output, or the decoded output. The \<open>n\<close>-th reading of the clock is
  \<open>clock n\<close>. \<open>pip_wheel dir root\<close> is the packaging tool run on \<open>root\<close> with
  \<open>--wheel-dir dir\<close>: the exception of a run that exits with a non-zero status, if
  any, and the file system it leaves. \<open>tmp_candidates\<close> are the names \<open>mkdtemp\<close> tries, in order.
  \<open>trace\<close> records the subprocesses started, the log lines and the calls of the
  remote client, oldest first.
\<close>

record world =
  files :: fs
  project_root :: "error + path"
  git_describe :: "nat \<Rightarrow> error + string"
  git_runs :: nat
  clock :: "nat \<Rightarrow> datetime"
  clock_reads :: nat
  pip_wheel :: "path \<Rightarrow> path \<Rightarrow> fs \<Rightarrow> error option \<times> fs"
  tmp_candidates :: "path list"
  python_exe :: string
  dbfs :: "string \<rightharpoonup> rnode"
  wsfs :: "string \<rightharpoonup> rnode"
  trace :: "event list"

definition run_git :: "world \<Rightarrow> (error + string) \<times> world" where
  "run_git w =
     (git_describe w (git_runs w),
      w\<lparr>git_runs := git_runs w + 1,
        trace := trace w @ [Subprocess [''git'', ''describe'', ''--tags''] PIPE Inherited]\<rparr>)"

definition now :: "world \<Rightarrow> datetime \<times> world" where
  "now w = (clock w (clock_reads w), w\<lparr>clock_reads := clock_reads w + 1\<rparr>)"

subsection \<open>\<open>Wheels.version\<close>\<close>

text \<open>How an f-string shows a value that may be \<open>None\<close>.\<close>

definition format_opt :: "string option \<Rightarrow> string" where
  "format_opt x = (case x of None \<Rightarrow> ''None'' | Some s \<Rightarrow> s)"

text \<open>The message of the \<open>except\<close> branch (lines 62 to 68).\<close>

definition cannot_determine :: "wheels \<Rightarrow> error \<Rightarrow> string" where
  "cannot_determine self err =
     ''Cannot determine unreleased version. Please report this error ''
     @ ''message that you see on https://github.com/'' @ github_org self @ ''/''
     @ product self @ ''/issues/new. ''
     @ ''Meanwhile, download, unpack, and install the latest released version from ''
     @ ''https://github.com/'' @ github_org self @ ''/'' @ product self
     @ ''/releases. Original error is: '' @ err_str err"

text \<open>Line 52: the commits since the tag, \<open>None\<close> when the pre-release is \<open>None\<close> or empty.\<close>

definition new_commits :: "SemVer \<Rightarrow> string option" where
  "new_commits dv =
     (case pre_release dv of
        None \<Rightarrow> None
      | Some p \<Rightarrow> if p = [] then None else Some (split_on (CHR ''-'') p ! 0))"

text \<open>Lines 54 to 56: the patch is bumped and the f-string is formatted.\<close>

definition semver_and_pep0440 :: "SemVer \<Rightarrow> string \<Rightarrow> string" where
  "semver_and_pep0440 dv datestamp =
     (let bump_patch = patch dv + 1
      in str_nat (major dv) @ ''.'' @ str_nat (minor dv) @ ''.'' @ str_nat bump_patch
         @ ''+'' @ format_opt (new_commits dv) @ datestamp)"

text \<open>Lines 49 to 58: the body of the \<open>try\<close> once the tool has answered.\<close>

definition unreleased :: "string \<Rightarrow> world \<Rightarrow> (error + string) \<times> world" where
  "unreleased git_detached_version w =
     (case SemVer_parse git_detached_version of
        Inl e \<Rightarrow> (Inl e, w)
      | Inr dv \<Rightarrow>
          let (t, w1) = now w;
              datestamp = strftime t;
              v = semver_and_pep0440 dv datestamp
          in (case SemVer_parse v of
                Inl e \<Rightarrow> (Inl e, w1)
              | Inr _ \<Rightarrow> (Inr v, w1)))"

definition version :: "wheels \<Rightarrow> world \<Rightarrow> (error + string) \<times> wheels \<times> world" where
  "version self w =
     (if hasattr self ''__version'' then (getattr_str self ''_Wheels__version'', self, w)
      else
        case project_root w of
          Inl e \<Rightarrow> (Inl e, self, w)
        | Inr root \<Rightarrow>
            if \<not> path_exists (files w) (root @ [''.git'', ''config''])
            then (Inr (released_version self), self, w)
            else
              let (out, w1) = run_git w;
                  (r, w2) = (case out of Inl e \<Rightarrow> (Inl e, w1)
                             | Inr text \<Rightarrow> unreleased text w1)
              in (case r of
                    Inl err \<Rightarrow> (Inl (Err OSError (cannot_determine self err)), self, w2)
                  | Inr v \<Rightarrow>
                      (Inr v, self\<lparr>dyn := (dyn self)(''_Wheels__version'' \<mapsto> Str v)\<rparr>, w2)))"

subsection \<open>\<open>Wheels._build_wheel\<close>\<close>

definition dquote :: char where
  "dquote = CHR 0x22"

text \<open>The version marker of the copy, relative to it (line 115).\<close>

definition about_file :: "wheels \<Rightarrow> path" where
  "about_file self = parts (''src/databricks/labs/'' @ product self @ ''/__about__.py'')"

text \<open>
  Lines 111 to 119. The marker is opened for writing, which empties it, before the
  version to write is asked for.
\<close>

definition working_copy ::
  "wheels \<Rightarrow> path \<Rightarrow> path \<Rightarrow> world \<Rightarrow> (error + path) \<times> wheels \<times> world" where
  "working_copy self root tmp_dir w =
     (let tmp_dir_path = tmp_dir @ [''working-copy''] in
      case copytree root tmp_dir_path (files w) of
        Inl e \<Rightarrow> (Inl e, self, w)
      | Inr f1 \<Rightarrow>
          let version_file = tmp_dir_path @ about_file self in
          (case write_text version_file [] f1 of
             Inl e \<Rightarrow> (Inl e, self, w\<lparr>files := f1\<rparr>)
           | Inr f2 \<Rightarrow>
               (case version self (w\<lparr>files := f2\<rparr>) of
                  (Inl e, self1, w1) \<Rightarrow> (Inl e, self1, w1)
                | (Inr v, self1, w1) \<Rightarrow>
                    (Inr tmp_dir_path, self1,
                     w1\<lparr>files := AList.update version_file
                                    (File (''__version__ = '' @ [dquote] @ v @ [dquote]))
                                    (files w1)\<rparr>))))"

text \<open>Lines 121 to 126: \<open>subprocess.run(..., check=True, stdout=..., stderr=...)\<close>.\<close>

definition run_pip ::
  "path \<Rightarrow> path \<Rightarrow> stream \<Rightarrow> stream \<Rightarrow> world \<Rightarrow> (error + unit) \<times> world" where
  "run_pip tmp_dir root sout serr w =
     (let (failure, f1) = pip_wheel w tmp_dir root (files w);
          w1 = w\<lparr>files := f1,
                 trace := trace w @
                   [Subprocess [python_exe w, ''-m'', ''pip'', ''wheel'', ''--no-deps'',
                                ''--wheel-dir'', as_posix tmp_dir, as_posix root] sout serr]\<rparr>
      in case failure of
           Some e \<Rightarrow> (Inl e, w1)
         | None \<Rightarrow> (Inr (), w1))"

text \<open>Line 128: \<open>next(...)\<close> of the first match, \<open>StopIteration\<close> when there is none.\<close>

definition first_whl :: "fs \<Rightarrow> path \<Rightarrow> error + path" where
  "first_whl f tmp_dir =
     (case glob_whl f tmp_dir of
        [] \<Rightarrow> Inl (Err StopIteration [])
      | p # _ \<Rightarrow> Inr p)"

text \<open>
  Lines 108 to 120: the root the tool is run on, the original one or the working copy,
  and the debug line that names it.
\<close>

definition prepare_root ::
  "wheels \<Rightarrow> path \<Rightarrow> world \<Rightarrow> (error + path) \<times> wheels \<times> world" where
  "prepare_root self tmp_dir w =
     (case project_root w of
        Inl e \<Rightarrow> (Inl e, self, w)
      | Inr root \<Rightarrow>
          (case version self w of
             (Inl e, self1, w1) \<Rightarrow> (Inl e, self1, w1)
           | (Inr v, self1, w1) \<Rightarrow>
               let is_non_released_version = (CHR ''+'' \<in> set v) in
               (case (if path_exists (files w1) (root @ [''.git'', ''config''])
                         \<and> is_non_released_version
                      then working_copy self1 root tmp_dir w1
                      else (Inr root, self1, w1)) of
                  (Inl e, self2, w2) \<Rightarrow> (Inl e, self2, w2)
                | (Inr root2, self2, w2) \<Rightarrow>
                    (Inr root2, self2,
                     w2\<lparr>trace := trace w2 @
                          [LogDebug (''Building wheel for '' @ as_posix root2
                                     @ '' in '' @ as_posix tmp_dir)]\<rparr>))))"

text \<open>
  \<open>_build_wheel(tmp_dir, verbose=verbose)\<close>: lines 103 to 107, the preparation of the
  root, the run of the tool and the choice of the wheel.
\<close>

definition build_wheel ::
  "wheels \<Rightarrow> path \<Rightarrow> bool \<Rightarrow> world \<Rightarrow> (error + path) \<times> wheels \<times> world" where
  "build_wheel self tmp_dir verbose w =
     (let sout = (if \<not> verbose then DEVNULL else STDOUT);
          serr = (if \<not> verbose then DEVNULL else STDOUT)
      in case prepare_root self tmp_dir w of
           (Inl e, self2, w2) \<Rightarrow> (Inl e, self2, w2)
         | (Inr root2, self2, w3) \<Rightarrow>
             (case run_pip tmp_dir root2 sout serr w3 of
                (Inl e, w4) \<Rightarrow> (Inl e, self2, w4)
              | (Inr _, w4) \<Rightarrow> (first_whl (files w4) tmp_dir, self2, w4)))"

subsection \<open>The scope: \<open>__enter__\<close> and \<open>__exit__\<close>\<close>

text \<open>
  \<open>tempfile.TemporaryDirectory()\<close>: the first candidate name that does not exist is
  created; when every candidate exists the call raises.
\<close>

definition mkdtemp :: "world \<Rightarrow> (error + path) \<times> world" where
  "mkdtemp w =
     (case filter (\<lambda>p. \<not> path_exists (files w) p) (tmp_candidates w) of
        [] \<Rightarrow> (Inl (Err FileExistsError ''No usable temporary directory name found''), w)
      | p # _ \<Rightarrow> (Inr p, w\<lparr>files := files w @ [(p, Dir)]\<rparr>))"

definition enter :: "wheels \<Rightarrow> world \<Rightarrow> (error + unit) \<times> wheels \<times> world" where
  "enter self w =
     (case mkdtemp w of
        (Inl e, w1) \<Rightarrow> (Inl e, self, w1)
      | (Inr tmp, w1) \<Rightarrow>
          let self1 = self\<lparr>dyn := (dyn self)(''_tmp_dir'' \<mapsto> PathV tmp)\<rparr> in
          (case build_wheel self1 tmp False w1 of
             (Inl e, self2, w2) \<Rightarrow> (Inl e, self2, w2)
           | (Inr whl, self2, w2) \<Rightarrow>
               let remote_wheel = install_folder self2 @ ''/wheels/'' @ name whl in
               (Inr (),
                self2\<lparr>dyn := (dyn self2)
                   (''_local_wheel'' \<mapsto> PathV whl,
                    ''_remote_wheel'' \<mapsto> Str remote_wheel,
                    ''_remote_dir_name'' \<mapsto> Str (dirname remote_wheel))\<rparr>,
                w2)))"

text \<open>\<open>self._tmp_dir.cleanup()\<close>; the method returns \<open>None\<close>.\<close>

definition exit :: "wheels \<Rightarrow> world \<Rightarrow> (error + unit) \<times> wheels \<times> world" where
  "exit self w =
     (case getattr_path self ''_tmp_dir'' of
        Inl e \<Rightarrow> (Inl e, self, w)
      | Inr tmp \<Rightarrow> (Inr (), self, w\<lparr>files := rmtree tmp (files w)\<rparr>))"

text \<open>
  \<open>with wheels: body\<close>. When \<open>__enter__\<close> raises, neither the body nor \<open>__exit__\<close>
  runs. Otherwise \<open>__exit__\<close> runs after the body however it ended, and as it returns
  \<open>None\<close> the outcome of the body, exception or value, is the outcome of the scope.
\<close>

definition with_scope ::
  "wheels \<Rightarrow> (wheels \<Rightarrow> world \<Rightarrow> (error + 'a) \<times> wheels \<times> world) \<Rightarrow> world
     \<Rightarrow> (error + 'a) \<times> wheels \<times> world" where
  "with_scope self body w =
     (case enter self w of
        (Inl e, self1, w1) \<Rightarrow> (Inl e, self1, w1)
      | (Inr _, self1, w1) \<Rightarrow>
          (case body self1 w1 of
             (r, self2, w2) \<Rightarrow>
               (case exit self2 w2 of
                  (Inl e, self3, w3) \<Rightarrow> (Inl e, self3, w3)
                | (Inr _, self3, w3) \<Rightarrow> (r, self3, w3))))"

subsection \<open>The uploads\<close>

text \<open>
  Modelled from the spec: the remote storage client of the workspace, two backends each
  with \<open>mkdirs(path)\<close> (create if absent, idempotent) and
  \<open>upload(path, handle, overwrite)\<close>, which replaces a file that exists only when
  \<open>overwrite\<close> is set. A store maps a path to a file or a directory.
\<close>

definition remote_mkdirs :: "string \<Rightarrow> (string \<rightharpoonup> rnode) \<Rightarrow> error + (string \<rightharpoonup> rnode)" where
  "remote_mkdirs d store =
     (case store d of
        None \<Rightarrow> Inr (store(d \<mapsto> RDir))
      | Some RDir \<Rightarrow> Inr store
      | Some (RFile c) \<Rightarrow> Inl (Err RemoteError (d @ '' is a file'')))"

definition remote_upload ::
  "string \<Rightarrow> string \<Rightarrow> bool \<Rightarrow> (string \<rightharpoonup> rnode) \<Rightarrow> error + (string \<rightharpoonup> rnode)" where
  "remote_upload p c overwrite store =
     (case store p of
        Some RDir \<Rightarrow> Inl (Err RemoteError (p @ '' is a directory''))
      | Some (RFile old) \<Rightarrow>
          if overwrite then Inr (store(p \<mapsto> RFile c))
          else Inl (Err RemoteError (p @ '' already exists''))
      | None \<Rightarrow> Inr (store(p \<mapsto> RFile c)))"

definition upload_to_dbfs :: "wheels \<Rightarrow> world \<Rightarrow> (error + string) \<times> world" where
  "upload_to_dbfs self w =
     (case getattr_path self ''_local_wheel'' of
        Inl e \<Rightarrow> (Inl e, w)
      | Inr local_wheel \<Rightarrow>
      (case open_rb (files w) local_wheel of
        Inl e \<Rightarrow> (Inl e, w)
      | Inr content \<Rightarrow>
      (case getattr_str self ''_remote_dir_name'' of
        Inl e \<Rightarrow> (Inl e, w)
      | Inr remote_dir_name \<Rightarrow>
      let w1 = w\<lparr>trace := trace w @ [DbfsMkdirs remote_dir_name]\<rparr> in
      (case remote_mkdirs remote_dir_name (dbfs w1) of
        Inl e \<Rightarrow> (Inl e, w1)
      | Inr store1 \<Rightarrow>
      (case getattr_str self ''_remote_wheel'' of
        Inl e \<Rightarrow> (Inl e, w1\<lparr>dbfs := store1\<rparr>)
      | Inr remote_wheel \<Rightarrow>
      let w2 = w1\<lparr>dbfs := store1,
                  trace := trace w1 @
                    [LogInfo (''Uploading wheel to dbfs:'' @ remote_wheel),
                     DbfsUpload remote_wheel content True]\<rparr> in
      (case remote_upload remote_wheel content True (dbfs w2) of
        Inl e \<Rightarrow> (Inl e, w2)
      | Inr store2 \<Rightarrow> (Inr remote_wheel, w2\<lparr>dbfs := store2\<rparr>)))))))"

definition upload_to_wsfs :: "wheels \<Rightarrow> world \<Rightarrow> (error + string) \<times> world" where
  "upload_to_wsfs self w =
     (case getattr_path self ''_local_wheel'' of
        Inl e \<Rightarrow> (Inl e, w)
      | Inr local_wheel \<Rightarrow>
      (case open_rb (files w) local_wheel of
        Inl e \<Rightarrow> (Inl e, w)
      | Inr content \<Rightarrow>
      (case getattr_str self ''_remote_dir_name'' of
        Inl e \<Rightarrow> (Inl e, w)
      | Inr remote_dir_name \<Rightarrow>
      let w1 = w\<lparr>trace := trace w @ [WorkspaceMkdirs remote_dir_name]\<rparr> in
      (case remote_mkdirs remote_dir_name (wsfs w1) of
        Inl e \<Rightarrow> (Inl e, w1)
      | Inr store1 \<Rightarrow>
      (case getattr_str self ''_remote_wheel'' of
        Inl e \<Rightarrow> (Inl e, w1\<lparr>wsfs := store1\<rparr>)
      | Inr remote_wheel \<Rightarrow>
      let w2 = w1\<lparr>wsfs := store1,
                  trace := trace w1 @
                    [LogInfo (''Uploading wheel to /Workspace'' @ remote_wheel),
                     WorkspaceUpload remote_wheel content True ''AUTO'']\<rparr> in
      (case remote_upload remote_wheel content True (wsfs w2) of
        Inl e \<Rightarrow> (Inl e, w2)
      | Inr store2 \<Rightarrow> (Inr remote_wheel, w2\<lparr>wsfs := store2\<rparr>)))))))"

subsection \<open>Example worlds\<close>

text \<open>
  A project at \<open>/proj\<close> under source control, a clock that reads one second later at
  each reading, starting at noon, a packaging tool that writes two wheels and one that
  writes none.
\<close>

definition noon :: datetime where
  "noon = \<lparr>year = 2023, month = 11, day = 1, hour = 12, minute = 0, second = 0\<rparr>"

definition example_tree :: fs where
  "example_tree =
     [([], Dir), ([''proj''], Dir), ([''proj'', ''.git''], Dir),
      ([''proj'', ''.git'', ''config''], File ''[core]''),
      ([''proj'', ''src''], Dir), ([''proj'', ''src'', ''databricks''], Dir),
      ([''proj'', ''src'', ''databricks'', ''labs''], Dir),
      ([''proj'', ''src'', ''databricks'', ''labs'', ''blueprint''], Dir),
      ([''proj'', ''src'', ''databricks'', ''labs'', ''blueprint'', ''__about__.py''],
       File ''__version__ = 0.1.0''),
      ([''tmp''], Dir)]"

definition example_pip :: "path \<Rightarrow> path \<Rightarrow> fs \<Rightarrow> error option \<times> fs" where
  "example_pip d r f =
     (None, f @ [(d @ [''blueprint.whl''], File ''wheel''), (d @ [''extra.whl''], File ''other'')])"

definition silent_pip :: "path \<Rightarrow> path \<Rightarrow> fs \<Rightarrow> error option \<times> fs" where
  "silent_pip d r f = (None, f)"

definition example_world :: "fs \<Rightarrow> (error + string) \<Rightarrow> world" where
  "example_world f git =
     \<lparr>files = f, project_root = Inr [''proj''],
      git_describe = (\<lambda>n. git), git_runs = 0,
      clock = (\<lambda>n. noon\<lparr>second := n\<rparr>), clock_reads = 0,
      pip_wheel = example_pip, tmp_candidates = [[''tmp'', ''w1'']],
      python_exe = ''python3'', dbfs = Map.empty, wsfs = Map.empty, trace = []\<rparr>"

definition example_wheels :: wheels where
  "example_wheels = init ''blueprint'' ''/Users/me/.blueprint'' ''0.1.0'' ''databrickslabs''"

definition tag_v123 :: string where
  "tag_v123 = ''v1.2.3'' @ [CHR 0x0A]"

definition semver_123 :: SemVer where
  "semver_123 = \<lparr>major = 1, minor = 2, patch = 3, pre_release = None, build = None\<rparr>"

definition released_tree :: fs where
  "released_tree =
     [([], Dir), ([''proj''], Dir),
      ([''proj'', ''src''], Dir), ([''proj'', ''src'', ''databricks''], Dir),
      ([''proj'', ''src'', ''databricks'', ''labs''], Dir),
      ([''proj'', ''src'', ''databricks'', ''labs'', ''blueprint''], Dir),
      ([''proj'', ''src'', ''databricks'', ''labs'', ''blueprint'', ''__about__.py''],
       File ''__version__ = 0.1.0''),
      ([''tmp''], Dir)]"

definition git_failure :: error where
  "git_failure = Err CalledProcessError ''git describe failed with exit status 128''"

definition bad_tag :: string where
  "bad_tag = ''not-a-tag''"

text \<open>The events the preparation of the root can add to the trace.\<close>

definition prep_event :: "event \<Rightarrow> bool" where
  "prep_event ev =
     (case ev of
        Subprocess args sout serr \<Rightarrow>
          args = [''git'', ''describe'', ''--tags''] \<and> sout = PIPE \<and> serr = Inherited
      | LogDebug m \<Rightarrow> True
      | _ \<Rightarrow> False)"

text \<open>The object and the world after \<open>__enter__\<close> in the released project.\<close>

definition entered_wheels :: wheels where
  "entered_wheels =
     example_wheels\<lparr>dyn := (dyn example_wheels)
        (''_tmp_dir'' \<mapsto> PathV [''tmp'', ''w1''],
         ''_local_wheel'' \<mapsto> PathV [''tmp'', ''w1'', ''blueprint.whl''],
         ''_remote_wheel'' \<mapsto> Str ''/Users/me/.blueprint/wheels/blueprint.whl'',
         ''_remote_dir_name'' \<mapsto> Str ''/Users/me/.blueprint/wheels'')\<rparr>"

definition entered_files :: fs where
  "entered_files =
     released_tree @
       [([''tmp'', ''w1''], Dir),
        ([''tmp'', ''w1'', ''blueprint.whl''], File ''wheel''),
        ([''tmp'', ''w1'', ''extra.whl''], File ''other'')]"

definition entered_world :: world where
  "entered_world =
     (example_world released_tree (Inl git_failure))
       \<lparr>files := entered_files,
        trace := [LogDebug ''Building wheel for /proj in /tmp/w1'',
                  Subprocess [''python3'', ''-m'', ''pip'', ''wheel'', ''--no-deps'',
                              ''--wheel-dir'', ''/tmp/w1'', ''/proj''] DEVNULL DEVNULL]\<rparr>"

text \<open>A body of the scope that raises.\<close>

definition raising_body :: "wheels \<Rightarrow> world \<Rightarrow> (error + unit) \<times> wheels \<times> world" where
  "raising_body self w = (Inl (Err ValueError ''boom''), self, w)"

text \<open>The example tree after \<open>copytree\<close> to \<open>/tmp/working-copy\<close>.\<close>

definition copied_tree :: fs where
  "copied_tree =
     [([''tmp'', ''working-copy'', ''.git''], Dir),
      ([''tmp'', ''working-copy'', ''.git'', ''config''], File ''[core]''),
      ([''tmp'', ''working-copy'', ''src''], Dir),
      ([''tmp'', ''working-copy'', ''src'', ''databricks''], Dir),
      ([''tmp'', ''working-copy'', ''src'', ''databricks'', ''labs''], Dir),
      ([''tmp'', ''working-copy'', ''src'', ''databricks'', ''labs'', ''blueprint''], Dir),
      ([''tmp'', ''working-copy'', ''src'', ''databricks'', ''labs'', ''blueprint'',
        ''__about__.py''], File ''__version__ = 0.1.0''),
      ([''tmp'', ''working-copy''], Dir)] @ example_tree"

definition copy_marker :: path where
  "copy_marker =
     [''tmp'', ''working-copy'', ''src'', ''databricks'', ''labs'', ''blueprint'',
      ''__about__.py'']"

section \<open>Properties\<close>

subsection \<open>Facts about \<open>version\<close>\<close>

lemma not_hasattr_version: "\<not> hasattr self ''__version'' \<longleftrightarrow> dyn self ''__version'' = None"
  by (simp add: hasattr_def class_names_def)

lemma example_wheels_fresh: "\<not> hasattr example_wheels ''__version''"
  by (simp add: not_hasattr_version example_wheels_def init_def)

lemma version_git:
  assumes "\<not> hasattr self ''__version''" and "project_root w = Inr root"
    and "path_exists (files w) (root @ [''.git'', ''config''])"
  shows "version self w =
     (case (case git_describe w (git_runs w) of Inl e \<Rightarrow> (Inl e, snd (run_git w))
            | Inr text \<Rightarrow> unreleased text (snd (run_git w))) of
        (Inl err, w2) \<Rightarrow> (Inl (Err OSError (cannot_determine self err)), self, w2)
      | (Inr v, w2) \<Rightarrow> (Inr v, self\<lparr>dyn := (dyn self)(''_Wheels__version'' \<mapsto> Str v)\<rparr>, w2))"
  using assms by (simp add: version_def run_git_def split: sum.splits prod.splits)

lemma unreleased_ok:
  assumes "SemVer_parse text = Inr dv"
    and "semver_and_pep0440 dv (strftime (clock w (clock_reads w))) = v"
    and "SemVer_parse v = Inr dv'"
  shows "unreleased text w = (Inr v, w\<lparr>clock_reads := clock_reads w + 1\<rparr>)"
  using assms by (simp add: unreleased_def now_def)

lemma version_keeps_no_cache:
  assumes "\<not> hasattr self ''__version''" and "version self w = (r, self', w')"
  shows "\<not> hasattr self' ''__version''"
  using assms
  by (auto simp: version_def hasattr_def class_names_def Let_def split: sum.splits prod.splits if_splits)

lemma parse_tag_v123: "SemVer_parse tag_v123 = Inr semver_123"
  by code_simp

lemma stamp0: "strftime (noon\<lparr>second := 0\<rparr>) = ''20231101120000''" by code_simp

lemma stamp1: "strftime (noon\<lparr>second := Suc 0\<rparr>) = ''20231101120001''" by code_simp

lemma compose_v123:
  "semver_and_pep0440 semver_123 d = ''1.2.4+None'' @ d"
proof -
  have "str_nat (major semver_123) = ''1''" "str_nat (minor semver_123) = ''2''"
    "str_nat (patch semver_123 + 1) = ''4''" "new_commits semver_123 = None"
    by code_simp+
  then show ?thesis by (simp add: semver_and_pep0440_def format_opt_def)
qed

lemma parse_v124_0: "SemVer_parse ''1.2.4+None20231101120000'' = Inr \<lparr>major = 1, minor = 2, patch = 4, pre_release = None, build = Some ''None20231101120000''\<rparr>" by code_simp

lemma parse_v124_1: "SemVer_parse ''1.2.4+None20231101120001'' = Inr \<lparr>major = 1, minor = 2, patch = 4, pre_release = None, build = Some ''None20231101120001''\<rparr>" by code_simp

lemma example_git: "path_exists example_tree [''proj'', ''.git'', ''config'']"
  by (simp add: path_exists_def example_tree_def)

lemma version_tag_at:
  assumes "\<not> hasattr self ''__version''" and "project_root w = Inr root"
    and "path_exists (files w) (root @ [''.git'', ''config''])"
    and "git_describe w (git_runs w) = Inr tag_v123"
    and "strftime (clock w (clock_reads w)) = d"
    and "SemVer_parse (''1.2.4+None'' @ d) = Inr dv'"
  shows "version self w = (Inr (''1.2.4+None'' @ d),
     self\<lparr>dyn := (dyn self)(''_Wheels__version'' \<mapsto> Str (''1.2.4+None'' @ d))\<rparr>,
     (snd (run_git w))\<lparr>clock_reads := clock_reads w + 1\<rparr>)"
proof -
  have "unreleased tag_v123 (snd (run_git w)) = (Inr (''1.2.4+None'' @ d), (snd (run_git w))\<lparr>clock_reads := clock_reads w + 1\<rparr>)"
    using assms(5,6) unreleased_ok[OF parse_tag_v123, of "snd (run_git w)" "''1.2.4+None'' @ d" dv']
    by (simp add: compose_v123 run_git_def)
  then show ?thesis using version_git[OF assms(1-3)] assms(4) by simp
qed

lemma example_first_call:
  "version example_wheels (example_world example_tree (Inr tag_v123))
     = (Inr ''1.2.4+None20231101120000'',
        example_wheels\<lparr>dyn := (dyn example_wheels)
           (''_Wheels__version'' \<mapsto> Str ''1.2.4+None20231101120000'')\<rparr>,
        (snd (run_git (example_world example_tree (Inr tag_v123))))\<lparr>clock_reads := 1\<rparr>)"
proof -
  let ?w = "example_world example_tree (Inr tag_v123)"
  obtain dv0 where p0: "SemVer_parse (''1.2.4+None'' @ ''20231101120000'') = Inr dv0"
    using parse_v124_0 by simp
  have "version example_wheels ?w = (Inr (''1.2.4+None'' @ ''20231101120000''),
     example_wheels\<lparr>dyn := (dyn example_wheels)
        (''_Wheels__version'' \<mapsto> Str (''1.2.4+None'' @ ''20231101120000''))\<rparr>,
     (snd (run_git ?w))\<lparr>clock_reads := clock_reads ?w + 1\<rparr>)"
    by (rule version_tag_at[OF example_wheels_fresh _ _ _ _ p0, where root = "[''proj'']"])
       (simp_all add: example_world_def example_git stamp0)
  then show ?thesis by (simp add: example_world_def)
qed

lemma example_second_call:
  "fst (version
     (example_wheels\<lparr>dyn := (dyn example_wheels)
         (''_Wheels__version'' \<mapsto> Str ''1.2.4+None20231101120000'')\<rparr>)
     ((snd (run_git (example_world example_tree (Inr tag_v123))))\<lparr>clock_reads := 1\<rparr>))
   = Inr ''1.2.4+None20231101120001''"
proof -
  let ?w = "example_world example_tree (Inr tag_v123)"
  let ?s1 = "example_wheels\<lparr>dyn := (dyn example_wheels)
         (''_Wheels__version'' \<mapsto> Str ''1.2.4+None20231101120000'')\<rparr>"
  let ?w1 = "(snd (run_git ?w))\<lparr>clock_reads := 1\<rparr>"
  obtain dv1 where p1: "SemVer_parse (''1.2.4+None'' @ ''20231101120001'') = Inr dv1"
    using parse_v124_1 by simp
  have f: "\<not> hasattr ?s1 ''__version''"
    using version_keeps_no_cache[OF example_wheels_fresh example_first_call] .
  have "version ?s1 ?w1 = (Inr (''1.2.4+None'' @ ''20231101120001''),
     ?s1\<lparr>dyn := (dyn ?s1)(''_Wheels__version'' \<mapsto> Str (''1.2.4+None'' @ ''20231101120001''))\<rparr>,
     (snd (run_git ?w1))\<lparr>clock_reads := clock_reads ?w1 + 1\<rparr>)"
    by (rule version_tag_at[OF f _ _ _ _ p1, where root = "[''proj'']"])
       (simp_all add: example_world_def example_git stamp1 run_git_def)
  then show ?thesis by simp
qed

lemma released_no_git: "\<not> path_exists released_tree [''proj'', ''.git'', ''config'']"
  by (simp add: path_exists_def released_tree_def)

lemma parse_bad_tag:
  "SemVer_parse bad_tag = Inl (Err ValueError ''Not a valid SemVer: vnot-a-tag'')"
  by code_simp

lemma unreleased_cases:
  "unreleased out w = (r, w') \<Longrightarrow>
     (case r of
        Inl cause \<Rightarrow> SemVer_parse out = Inl cause
           \<or> (\<exists>dv. SemVer_parse out = Inr dv
                \<and> SemVer_parse (semver_and_pep0440 dv (strftime (clock w (clock_reads w))))
                    = Inl cause)
      | Inr v \<Rightarrow> (\<exists>dv dv'. SemVer_parse out = Inr dv
                \<and> v = semver_and_pep0440 dv (strftime (clock w (clock_reads w)))
                \<and> SemVer_parse v = Inr dv'))
     \<and> git_runs w' = git_runs w \<and> trace w' = trace w \<and> files w' = files w"
  by (auto simp: unreleased_def now_def Let_def split: sum.splits)

subsection \<open>Memoization of the version\<close>

text \<open>
  C1: two calls of \<open>version()\<close> on one instance are claimed to return the same string,
  the second from the cache. The code tests \<open>hasattr(self, "__version")\<close> but stores
  the value under the mangled name \<open>_Wheels__version\<close>, so the test never succeeds and
  every call computes the version again. On the example project with the exact tag
  \<open>v1.2.3\<close>, a call at 12:00:00 and the next call on the same instance, in the world
  the first call left, at 12:00:01 return two different strings.
\<close>

theorem version_not_memoized:
  "fst (version example_wheels (example_world example_tree (Inr tag_v123)))
     = Inr ''1.2.4+None20231101120000''
   \<and> fst (version
             (fst (snd (version example_wheels (example_world example_tree (Inr tag_v123)))))
             (snd (snd (version example_wheels (example_world example_tree (Inr tag_v123))))))
     = Inr ''1.2.4+None20231101120001''"
  using example_second_call by (simp add: example_first_call)

subsection \<open>The version of an exact tag\<close>

text \<open>
  C2: for the exact tag \<open>v1.2.3\<close> the version is claimed to be \<open>1.2.4+\<close> followed by
  the 14-digit timestamp, with nothing in between. The code sets \<open>new_commits\<close> to
  \<open>None\<close> and formats it into the f-string, which prints the four letters \<open>None\<close>
  between the \<open>+\<close> and the timestamp.
\<close>

theorem version_exact_tag_prints_None:
  "fst (version example_wheels (example_world example_tree (Inr tag_v123)))
     = Inr (''1.2.4+'' @ ''None'' @ ''20231101120000'')
   \<and> fst (version example_wheels (example_world example_tree (Inr tag_v123)))
     \<noteq> Inr (''1.2.4+'' @ ''20231101120000'')"
  by (simp add: example_first_call)

subsection \<open>A project that is not under source control\<close>

text \<open>
  C5: when the project root has no \<open>.git/config\<close>, \<open>version()\<close> returns the released
  version given to the constructor, unchanged, and changes neither the object nor the
  world. The first hypothesis holds of every object the constructor makes and is kept
  by every call of \<open>version\<close> (\<open>version_keeps_no_cache\<close>).
\<close>

theorem version_without_git:
  assumes "\<not> hasattr self ''__version''" and "project_root w = Inr root"
    and "\<not> path_exists (files w) (root @ [''.git'', ''config''])"
  shows "version self w = (Inr (released_version self), self, w)"
  using assms by (simp add: version_def)

theorem version_without_git_witness:
  "\<not> hasattr example_wheels ''__version''
   \<and> project_root (example_world released_tree (Inl git_failure)) = Inr [''proj'']
   \<and> \<not> path_exists (files (example_world released_tree (Inl git_failure)))
          ([''proj''] @ [''.git'', ''config''])
   \<and> version example_wheels (example_world released_tree (Inl git_failure))
       = (Inr ''0.1.0'', example_wheels, example_world released_tree (Inl git_failure))"
proof -
  have h2: "project_root (example_world released_tree (Inl git_failure)) = Inr [''proj'']"
    by (simp add: example_world_def)
  have h3: "\<not> path_exists (files (example_world released_tree (Inl git_failure)))
               ([''proj''] @ [''.git'', ''config''])"
    using released_no_git by (simp add: example_world_def)
  have "released_version example_wheels = ''0.1.0''"
    by (simp add: example_wheels_def init_def)
  then show ?thesis
    using version_without_git [OF example_wheels_fresh h2 h3] example_wheels_fresh h2 h3
    by simp
qed

subsection \<open>The error of a failed resolution\<close>

text \<open>
  C6: in a project under source control, every failure of \<open>version()\<close> is an
  \<open>OSError\<close> whose message holds the address of the issue tracker of the project, the
  address of its releases page and, at its end, the text of the underlying error: the
  error of the source-control tool, of parsing its output, or of parsing the composed
  string. A failure of the tool or of parsing the tag does make the call fail in this
  way. The tool is run once, never a second time.
\<close>

theorem version_failure_message:
  assumes "\<not> hasattr self ''__version''" and "project_root w = Inr root"
    and "path_exists (files w) (root @ [''.git'', ''config''])"
  shows "(\<forall>e. fst (version self w) = Inl e \<longrightarrow>
            (\<exists>cause.
               e = Err OSError
                     (''Cannot determine unreleased version. Please report this error ''
                      @ ''message that you see on https://github.com/'' @ github_org self
                      @ ''/'' @ product self @ ''/issues/new. ''
                      @ ''Meanwhile, download, unpack, and install the latest released ''
                      @ ''version from https://github.com/'' @ github_org self @ ''/''
                      @ product self @ ''/releases. Original error is: '' @ err_str cause)
               \<and> (git_describe w (git_runs w) = Inl cause
                    \<or> (\<exists>out. git_describe w (git_runs w) = Inr out
                          \<and> (SemVer_parse out = Inl cause
                               \<or> (\<exists>dv. SemVer_parse out = Inr dv
                                     \<and> SemVer_parse (semver_and_pep0440 dv
                                           (strftime (clock w (clock_reads w)))) = Inl cause))))))
       \<and> (\<forall>cause. git_describe w (git_runs w) = Inl cause
                    \<or> (\<exists>out. git_describe w (git_runs w) = Inr out
                                \<and> SemVer_parse out = Inl cause)
             \<longrightarrow> fst (version self w) = Inl (Err OSError (cannot_determine self cause)))
       \<and> git_runs (snd (snd (version self w))) = git_runs w + 1
       \<and> trace (snd (snd (version self w)))
           = trace w @ [Subprocess [''git'', ''describe'', ''--tags''] PIPE Inherited]"
proof -
  note v = version_git [OF assms]
  show ?thesis
  proof (cases "git_describe w (git_runs w)")
    case (Inl c)
    then show ?thesis using v by (simp add: cannot_determine_def run_git_def)
  next
    case (Inr out)
    obtain r w2 where u: "unreleased out (snd (run_git w)) = (r, w2)"
      by (cases "unreleased out (snd (run_git w))")
    note uc = unreleased_cases [OF u]
    show ?thesis
    proof (cases r)
      case (Inl c)
      then show ?thesis using v Inr u uc
        by (auto simp: cannot_determine_def run_git_def)
    next
      case (Inr s)
      then show ?thesis using v \<open>git_describe w (git_runs w) = Inr out\<close> u uc
        by (auto simp: cannot_determine_def run_git_def)
    qed
  qed
qed

theorem version_failure_message_witness:
  "\<not> hasattr example_wheels ''__version''
   \<and> project_root (example_world example_tree (Inl git_failure)) = Inr [''proj'']
   \<and> path_exists (files (example_world example_tree (Inl git_failure)))
        ([''proj''] @ [''.git'', ''config''])
   \<and> fst (version example_wheels (example_world example_tree (Inl git_failure)))
       = Inl (Err OSError
           (''Cannot determine unreleased version. Please report this error ''
            @ ''message that you see on ''
            @ ''https://github.com/databrickslabs/blueprint/issues/new. ''
            @ ''Meanwhile, download, unpack, and install the latest released version from ''
            @ ''https://github.com/databrickslabs/blueprint/releases. ''
            @ ''Original error is: git describe failed with exit status 128''))
   \<and> fst (version example_wheels (example_world example_tree (Inr bad_tag)))
       = Inl (Err OSError
           (''Cannot determine unreleased version. Please report this error ''
            @ ''message that you see on ''
            @ ''https://github.com/databrickslabs/blueprint/issues/new. ''
            @ ''Meanwhile, download, unpack, and install the latest released version from ''
            @ ''https://github.com/databrickslabs/blueprint/releases. ''
            @ ''Original error is: Not a valid SemVer: vnot-a-tag''))
   \<and> git_runs (snd (snd (version example_wheels (example_world example_tree (Inl git_failure)))))
       = 1"
proof -
  let ?w = "example_world example_tree (Inl git_failure)"
  let ?b = "example_world example_tree (Inr bad_tag)"
  have h2: "project_root ?w = Inr [''proj'']" and b2: "project_root ?b = Inr [''proj'']"
    by (simp_all add: example_world_def)
  have h3: "path_exists (files ?w) ([''proj''] @ [''.git'', ''config''])"
    and b3: "path_exists (files ?b) ([''proj''] @ [''.git'', ''config''])"
    using example_git by (simp_all add: example_world_def)
  note t = version_failure_message [OF example_wheels_fresh h2 h3]
  note u = version_failure_message [OF example_wheels_fresh b2 b3]
  have g: "git_describe ?w (git_runs ?w) = Inl git_failure"
    and p: "git_describe ?b (git_runs ?b) = Inr bad_tag"
    by (simp_all add: example_world_def)
  have m1: "fst (version example_wheels ?w)
      = Inl (Err OSError (cannot_determine example_wheels git_failure))"
    using t g by blast
  have m2: "fst (version example_wheels ?b)
      = Inl (Err OSError (cannot_determine example_wheels
               (Err ValueError ''Not a valid SemVer: vnot-a-tag'')))"
    using u p parse_bad_tag by blast
  have n: "git_runs (snd (snd (version example_wheels ?w))) = git_runs ?w + 1"
    using t by blast
  have z: "git_runs ?w = 0" by (simp add: example_world_def)
  show ?thesis
    using example_wheels_fresh h2 h3 m1 m2 n z
    by (simp add: cannot_determine_def example_wheels_def init_def git_failure_def)
qed

subsection \<open>Facts about the build\<close>

lemma version_effect:
  assumes "version self w = (r, self', w')"
  shows "files w' = files w \<and> project_root w' = project_root w \<and> pip_wheel w' = pip_wheel w
     \<and> python_exe w' = python_exe w \<and> tmp_candidates w' = tmp_candidates w
     \<and> dbfs w' = dbfs w \<and> wsfs w' = wsfs w
     \<and> (trace w' = trace w
          \<or> trace w' = trace w @ [Subprocess [''git'', ''describe'', ''--tags''] PIPE Inherited])
     \<and> (\<forall>n. n \<noteq> ''_Wheels__version'' \<longrightarrow> dyn self' n = dyn self n)
     \<and> product self' = product self \<and> install_folder self' = install_folder self
     \<and> github_org self' = github_org self \<and> released_version self' = released_version self"
  using assms
  by (auto simp: version_def unreleased_def now_def run_git_def Let_def
           split: sum.splits prod.splits if_splits)

lemma working_copy_effect:
  assumes "working_copy self root tmp_dir w = (r, self', w')"
  shows "project_root w' = project_root w \<and> pip_wheel w' = pip_wheel w
     \<and> python_exe w' = python_exe w \<and> tmp_candidates w' = tmp_candidates w
     \<and> dbfs w' = dbfs w \<and> wsfs w' = wsfs w
     \<and> (trace w' = trace w
          \<or> trace w' = trace w @ [Subprocess [''git'', ''describe'', ''--tags''] PIPE Inherited])
     \<and> (\<forall>n. n \<noteq> ''_Wheels__version'' \<longrightarrow> dyn self' n = dyn self n)
     \<and> product self' = product self \<and> install_folder self' = install_folder self
     \<and> github_org self' = github_org self \<and> released_version self' = released_version self"
proof (cases "copytree root (tmp_dir @ [''working-copy'']) (files w)")
  case (Inl e)
  then show ?thesis using assms by (auto simp: working_copy_def)
next
  case (Inr f1)
  show ?thesis
  proof (cases "write_text (tmp_dir @ [''working-copy''] @ about_file self) [] f1")
    case (Inl e)
    then show ?thesis using assms Inr by (auto simp: working_copy_def)
  next
    case f2: (Inr f2)
    obtain r2 s2 w2 where v: "version self (w\<lparr>files := f2\<rparr>) = (r2, s2, w2)"
      by (cases "version self (w\<lparr>files := f2\<rparr>)")
    show ?thesis using assms Inr f2 v version_effect [OF v]
      by (cases r2) (auto simp: working_copy_def)
  qed
qed

lemma prepare_root_effect:
  assumes "prepare_root self tmp_dir w = (r, self', w')"
  shows "project_root w' = project_root w \<and> pip_wheel w' = pip_wheel w
     \<and> python_exe w' = python_exe w \<and> tmp_candidates w' = tmp_candidates w
     \<and> dbfs w' = dbfs w \<and> wsfs w' = wsfs w
     \<and> (\<exists>evs. trace w' = trace w @ evs \<and> (\<forall>ev\<in>set evs. prep_event ev))
     \<and> (\<forall>n. n \<noteq> ''_Wheels__version'' \<longrightarrow> dyn self' n = dyn self n)
     \<and> product self' = product self \<and> install_folder self' = install_folder self
     \<and> github_org self' = github_org self \<and> released_version self' = released_version self"
proof (cases "project_root w")
  case (Inl e)
  then show ?thesis using assms by (auto simp: prepare_root_def)
next
  case (Inr root)
  obtain r1 s1 w1 where v: "version self w = (r1, s1, w1)"
    by (cases "version self w")
  note ve = version_effect [OF v]
  show ?thesis
  proof (cases r1)
    case (Inl e)
    then show ?thesis using assms Inr v ve
      by (auto simp: prepare_root_def prep_event_def)
  next
    case v1: (Inr v1)
    show ?thesis
    proof (cases "path_exists (files w1) (root @ [''.git'', ''config'']) \<and> CHR ''+'' \<in> set v1")
      case False
      then show ?thesis using assms Inr v v1 ve
        by (auto simp: prepare_root_def prep_event_def)
    next
      case True
      obtain r2 s2 w2 where c: "working_copy s1 root tmp_dir w1 = (r2, s2, w2)"
        by (cases "working_copy s1 root tmp_dir w1")
      note ce = working_copy_effect [OF c]
      from True have T: "path_exists (files w1) (root @ [''.git'', ''config''])" "CHR ''+'' \<in> set v1"
        by simp_all
      show ?thesis
      proof (cases r2)
        case (Inl e)
        then show ?thesis using assms Inr v v1 T c ve ce
          by (auto simp: prepare_root_def prep_event_def)
      next
        case (Inr root2)
        then show ?thesis using assms \<open>project_root w = Inr root\<close> v v1 T c ve ce
          by (auto simp: prepare_root_def prep_event_def)
      qed
    qed
  qed
qed

lemma build_wheel_prepare_failed:
  "prepare_root self tmp_dir w = (Inl e, self2, w2) \<Longrightarrow>
   build_wheel self tmp_dir verbose w = (Inl e, self2, w2)"
  by (simp add: build_wheel_def)

lemma build_wheel_after_prepare:
  assumes "prepare_root self tmp_dir w = (Inr root2, self2, w2)"
    and "pip_wheel w2 tmp_dir root2 (files w2) = (failure, f)"
  shows "build_wheel self tmp_dir verbose w =
     ((case failure of Some e \<Rightarrow> Inl e | None \<Rightarrow> first_whl f tmp_dir), self2,
      w2\<lparr>files := f,
         trace := trace w2 @
           [Subprocess [python_exe w2, ''-m'', ''pip'', ''wheel'', ''--no-deps'',
                        ''--wheel-dir'', as_posix tmp_dir, as_posix root2]
              (if verbose then STDOUT else DEVNULL) (if verbose then STDOUT else DEVNULL)]\<rparr>)"
  using assms by (simp add: build_wheel_def run_pip_def split: option.splits)

lemma build_wheel_effect:
  assumes "build_wheel self tmp_dir verbose w = (r, self', w')"
  shows "project_root w' = project_root w \<and> pip_wheel w' = pip_wheel w
     \<and> python_exe w' = python_exe w \<and> tmp_candidates w' = tmp_candidates w
     \<and> dbfs w' = dbfs w \<and> wsfs w' = wsfs w
     \<and> (\<exists>evs. trace w' = trace w @ evs
           \<and> (\<forall>ev\<in>set evs. prep_event ev
                 \<or> (\<exists>root2. ev = Subprocess [python_exe w, ''-m'', ''pip'', ''wheel'',
                        ''--no-deps'', ''--wheel-dir'', as_posix tmp_dir, as_posix root2]
                        (if verbose then STDOUT else DEVNULL)
                        (if verbose then STDOUT else DEVNULL)))
           \<and> (\<forall>p. r = Inr p \<longrightarrow>
                 (\<exists>root2. Subprocess [python_exe w, ''-m'', ''pip'', ''wheel'',
                        ''--no-deps'', ''--wheel-dir'', as_posix tmp_dir, as_posix root2]
                        (if verbose then STDOUT else DEVNULL)
                        (if verbose then STDOUT else DEVNULL) \<in> set evs)))
     \<and> (\<forall>n. n \<noteq> ''_Wheels__version'' \<longrightarrow> dyn self' n = dyn self n)
     \<and> product self' = product self \<and> install_folder self' = install_folder self
     \<and> github_org self' = github_org self \<and> released_version self' = released_version self"
proof -
  obtain r2 self2 w2 where p: "prepare_root self tmp_dir w = (r2, self2, w2)"
    by (cases "prepare_root self tmp_dir w")
  note pe = prepare_root_effect [OF p]
  then obtain evs where evs: "trace w2 = trace w @ evs" "\<forall>ev\<in>set evs. prep_event ev"
    by blast
  show ?thesis
  proof (cases r2)
    case (Inl e)
    then have "build_wheel self tmp_dir verbose w = (Inl e, self2, w2)"
      using p by (simp add: build_wheel_prepare_failed)
    then have "r = Inl e" "self' = self2" "w' = w2" using assms by simp_all
    then show ?thesis using pe evs by auto
  next
    case (Inr root2)
    obtain failure f where t: "pip_wheel w2 tmp_dir root2 (files w2) = (failure, f)"
      by (cases "pip_wheel w2 tmp_dir root2 (files w2)")
    let ?ev = "Subprocess [python_exe w2, ''-m'', ''pip'', ''wheel'', ''--no-deps'',
                        ''--wheel-dir'', as_posix tmp_dir, as_posix root2]
              (if verbose then STDOUT else DEVNULL) (if verbose then STDOUT else DEVNULL)"
    have b: "build_wheel self tmp_dir verbose w =
       ((case failure of Some e \<Rightarrow> Inl e | None \<Rightarrow> first_whl f tmp_dir), self2,
        w2\<lparr>files := f, trace := trace w2 @ [?ev]\<rparr>)"
      using build_wheel_after_prepare [OF _ t] p Inr by simp
    then have eq: "self' = self2" "w' = w2\<lparr>files := f, trace := trace w2 @ [?ev]\<rparr>"
      using assms by simp_all
    have tr: "trace w' = trace w @ (evs @ [?ev])" using eq evs by simp
    have px: "python_exe w2 = python_exe w" using pe by simp
    have "\<exists>evs. trace w' = trace w @ evs
           \<and> (\<forall>ev\<in>set evs. prep_event ev
                 \<or> (\<exists>root2. ev = Subprocess [python_exe w, ''-m'', ''pip'', ''wheel'',
                        ''--no-deps'', ''--wheel-dir'', as_posix tmp_dir, as_posix root2]
                        (if verbose then STDOUT else DEVNULL)
                        (if verbose then STDOUT else DEVNULL)))
           \<and> (\<forall>p. r = Inr p \<longrightarrow>
                 (\<exists>root2. Subprocess [python_exe w, ''-m'', ''pip'', ''wheel'',
                        ''--no-deps'', ''--wheel-dir'', as_posix tmp_dir, as_posix root2]
                        (if verbose then STDOUT else DEVNULL)
                        (if verbose then STDOUT else DEVNULL) \<in> set evs))"
      apply (rule exI [of _ "evs @ [?ev]"])
      using tr evs px by auto
    then show ?thesis using pe eq by simp
  qed
qed

lemma version_released:
  assumes "\<not> hasattr self ''__version''" and "project_root w = Inr root"
    and "\<not> path_exists (files w) (root @ [''.git'', ''config''])"
  shows "version self w = (Inr (released_version self), self, w)"
  using assms by (simp add: version_def)

lemma prepare_root_released:
  assumes "\<not> hasattr self ''__version''" and "project_root w = Inr root"
    and "\<not> path_exists (files w) (root @ [''.git'', ''config''])"
  shows "prepare_root self tmp_dir w =
     (Inr root, self,
      w\<lparr>trace := trace w @ [LogDebug (''Building wheel for '' @ as_posix root
                                       @ '' in '' @ as_posix tmp_dir)]\<rparr>)"
  using assms version_released [OF assms] by (simp add: prepare_root_def)

lemma first_whl_none:
  "list_all (\<lambda>(p, n). \<not> whl_in d p) f \<or> \<not> is_dir f d \<Longrightarrow> first_whl f d = Inl (Err StopIteration [])"
proof -
  assume a: "list_all (\<lambda>(p, n). \<not> whl_in d p) f \<or> \<not> is_dir f d"
  have "list_all (\<lambda>(p, n). \<not> whl_in d p) f \<Longrightarrow> filter (\<lambda>(p, n). whl_in d p) f = []"
    by (induction f) auto
  then have "glob_whl f d = []" using a by (auto simp: glob_whl_def)
  then show ?thesis by (simp add: first_whl_def)
qed

lemma first_whl_first:
  assumes "is_dir f d" and "f = pre @ (p, n) # rest" and "whl_in d p"
    and "list_all (\<lambda>(q, m). \<not> whl_in d q) pre"
  shows "first_whl f d = Inr p"
proof -
  have "filter (\<lambda>(p, n). whl_in d p) pre = []"
    using assms(4) by (induction pre) auto
  then have "glob_whl f d = p # map fst (filter (\<lambda>(p, n). whl_in d p) rest)"
    using assms(1-3) by (simp add: glob_whl_def)
  then show ?thesis by (simp add: first_whl_def)
qed

lemma first_whl_sound:
  assumes "first_whl f d = Inr p"
  shows "whl_in d p \<and> path_exists f p \<and> is_dir f d"
proof -
  have g: "glob_whl f d \<noteq> []" "p = hd (glob_whl f d)"
    using assms by (auto simp: first_whl_def split: list.splits)
  then have "p \<in> set (glob_whl f d)" by simp
  then have d: "is_dir f d" and "p \<in> fst ` {e \<in> set f. whl_in d (fst e)}"
    by (auto simp: glob_whl_def split: if_splits)
  then obtain n where "(p, n) \<in> set f" "whl_in d p" by auto
  then have "p \<in> fst ` set f" by force
  then have "map_of f p \<noteq> None" by (simp add: map_of_eq_None_iff)
  then show ?thesis using \<open>whl_in d p\<close> d by (simp add: path_exists_def)
qed

subsection \<open>The choice of the wheel\<close>

text \<open>
  C9: once the root is prepared and the packaging tool has exited with success, leaving
  the file system \<open>f\<close>, \<open>_build_wheel\<close> raises \<open>StopIteration\<close> when no entry
  directly in the temporary directory has a name ending in \<open>.whl\<close> (or the directory
  is gone), and otherwise returns the first such entry in the order of enumeration,
  whatever follows it, further matches included. What it returns is a matching entry
  of \<open>f\<close>.
\<close>

theorem build_wheel_picks_first_wheel:
  assumes "prepare_root self tmp_dir w = (Inr root2, self2, w2)"
    and "pip_wheel w2 tmp_dir root2 (files w2) = (None, f)"
  shows "(list_all (\<lambda>(p, n). \<not> whl_in tmp_dir p) f \<or> \<not> is_dir f tmp_dir
            \<longrightarrow> fst (build_wheel self tmp_dir verbose w) = Inl (Err StopIteration []))
       \<and> (\<forall>pre p n rest.
             is_dir f tmp_dir \<and> f = pre @ (p, n) # rest \<and> whl_in tmp_dir p
             \<and> list_all (\<lambda>(q, m). \<not> whl_in tmp_dir q) pre
            \<longrightarrow> fst (build_wheel self tmp_dir verbose w) = Inr p)
       \<and> (\<forall>p. fst (build_wheel self tmp_dir verbose w) = Inr p
            \<longrightarrow> whl_in tmp_dir p \<and> path_exists f p)
       \<and> files (snd (snd (build_wheel self tmp_dir verbose w))) = f"
proof -
  have b: "fst (build_wheel self tmp_dir verbose w) = first_whl f tmp_dir"
     "files (snd (snd (build_wheel self tmp_dir verbose w))) = f"
    using build_wheel_after_prepare [OF assms] by simp_all
  show ?thesis
    using b first_whl_none [of tmp_dir f] first_whl_first [of f tmp_dir]
      first_whl_sound [of f tmp_dir]
    by (metis (no_types, lifting))
qed

lemma released_world_root:
  "project_root (example_world released_tree g) = Inr [''proj'']"
  by (simp add: example_world_def)

lemma released_world_no_git:
  "\<not> path_exists (files (example_world released_tree g)) ([''proj''] @ [''.git'', ''config''])"
  using released_no_git by (simp add: example_world_def)

lemma released_prepare:
  "prepare_root example_wheels [''tmp''] (example_world released_tree g) =
     (Inr [''proj''], example_wheels,
      (example_world released_tree g)\<lparr>trace := [LogDebug ''Building wheel for /proj in /tmp'']\<rparr>)"
proof -
  have "trace (example_world released_tree g) = []" by (simp add: example_world_def)
  then show ?thesis
    using prepare_root_released [OF example_wheels_fresh released_world_root [of g]
        released_world_no_git [of g], where tmp_dir = "[''tmp'']"]
    by (simp add: as_posix_def)
qed

lemma released_tree_no_whl: "list_all (\<lambda>(p, n). \<not> whl_in [''tmp''] p) released_tree"
  by (simp add: released_tree_def whl_in_def ends_with_def)

lemma released_tmp_dir: "is_dir (released_tree @ xs) [''tmp'']"
  by (simp add: is_dir_def released_tree_def)

theorem build_wheel_picks_first_wheel_witness:
  "prepare_root example_wheels [''tmp''] (example_world released_tree (Inl git_failure)) =
     (Inr [''proj''], example_wheels,
      (example_world released_tree (Inl git_failure))
         \<lparr>trace := [LogDebug ''Building wheel for /proj in /tmp'']\<rparr>)
   \<and> example_pip [''tmp''] [''proj''] released_tree =
       (None, released_tree @ [([''tmp'', ''blueprint.whl''], File ''wheel''),
                               ([''tmp'', ''extra.whl''], File ''other'')])
   \<and> fst (build_wheel example_wheels [''tmp''] False
             (example_world released_tree (Inl git_failure)))
       = Inr [''tmp'', ''blueprint.whl'']
   \<and> silent_pip [''tmp''] [''proj''] released_tree = (None, released_tree)
   \<and> fst (build_wheel example_wheels [''tmp''] False
             ((example_world released_tree (Inl git_failure))\<lparr>pip_wheel := silent_pip\<rparr>))
       = Inl (Err StopIteration [])"
proof -
  let ?w = "example_world released_tree (Inl git_failure)"
  let ?w2 = "?w\<lparr>trace := [LogDebug ''Building wheel for /proj in /tmp'']\<rparr>"
  let ?f = "released_tree @ [([''tmp'', ''blueprint.whl''], File ''wheel''),
                               ([''tmp'', ''extra.whl''], File ''other'')]"
  have p: "prepare_root example_wheels [''tmp''] ?w = (Inr [''proj''], example_wheels, ?w2)"
    by (rule released_prepare)
  have t: "pip_wheel ?w2 [''tmp''] [''proj''] (files ?w2) = (None, ?f)"
    by (simp add: example_world_def example_pip_def)
  have m: "whl_in [''tmp''] [''tmp'', ''blueprint.whl'']"
    by (simp add: whl_in_def ends_with_def)
  have one: "fst (build_wheel example_wheels [''tmp''] False ?w) = Inr [''tmp'', ''blueprint.whl'']"
    using build_wheel_picks_first_wheel [OF p t, of False] released_tmp_dir m released_tree_no_whl
    by blast
  let ?s = "?w\<lparr>pip_wheel := silent_pip\<rparr>"
  let ?s2 = "?s\<lparr>trace := [LogDebug ''Building wheel for /proj in /tmp'']\<rparr>"
  have sr: "project_root ?s = Inr [''proj'']" by (simp add: example_world_def)
  have sg: "\<not> path_exists (files ?s) ([''proj''] @ [''.git'', ''config''])"
    using released_no_git by (simp add: example_world_def)
  have ps: "prepare_root example_wheels [''tmp''] ?s = (Inr [''proj''], example_wheels, ?s2)"
    using prepare_root_released [OF example_wheels_fresh sr sg, where tmp_dir = "[''tmp'']"]
    by (simp add: as_posix_def example_world_def)
  have ts: "pip_wheel ?s2 [''tmp''] [''proj''] (files ?s2) = (None, released_tree)"
    by (simp add: example_world_def silent_pip_def)
  have none: "fst (build_wheel example_wheels [''tmp''] False ?s) = Inl (Err StopIteration [])"
    using build_wheel_picks_first_wheel [OF ps ts, of False] released_tree_no_whl by blast
  show ?thesis using p one none by (simp add: example_pip_def silent_pip_def)
qed

lemma mkdtemp_effect:
  assumes "mkdtemp w = (r, w')"
  shows "trace w' = trace w \<and> project_root w' = project_root w \<and> pip_wheel w' = pip_wheel w
     \<and> python_exe w' = python_exe w \<and> dbfs w' = dbfs w \<and> wsfs w' = wsfs w
     \<and> (\<forall>tmp. r = Inr tmp \<longrightarrow> tmp \<in> set (tmp_candidates w) \<and> \<not> path_exists (files w) tmp
            \<and> files w' = files w @ [(tmp, Dir)])"
proof (cases "filter (\<lambda>p. \<not> path_exists (files w) p) (tmp_candidates w)")
  case Nil
  then show ?thesis using assms by (auto simp: mkdtemp_def)
next
  case (Cons p ps)
  then have "p \<in> set (filter (\<lambda>p. \<not> path_exists (files w) p) (tmp_candidates w))" by simp
  then have "p \<in> set (tmp_candidates w)" "\<not> path_exists (files w) p" by simp_all
  then show ?thesis using assms Cons by (auto simp: mkdtemp_def)
qed

subsection \<open>The streams of the packaging tool\<close>

text \<open>
  C10: \<open>__enter__\<close> calls \<open>_build_wheel\<close> without the \<open>verbose\<close> flag. Every
  subprocess it starts is the \<open>git describe\<close> of \<open>version()\<close> or the packaging tool
  run with both \<open>stdout\<close> and \<open>stderr\<close> set to \<open>DEVNULL\<close>, and when
  \<open>__enter__\<close> succeeds the tool has been run in this way.
\<close>

theorem enter_runs_tool_quietly:
  assumes "enter self w = (r, self', w')"
  shows "\<exists>evs. trace w' = trace w @ evs
     \<and> (\<forall>args sout serr. Subprocess args sout serr \<in> set evs \<longrightarrow>
           args = [''git'', ''describe'', ''--tags'']
           \<or> (sout = DEVNULL \<and> serr = DEVNULL
               \<and> take 6 args = [python_exe w, ''-m'', ''pip'', ''wheel'', ''--no-deps'',
                                 ''--wheel-dir'']))
     \<and> (r = Inr () \<longrightarrow>
           (\<exists>args. Subprocess args DEVNULL DEVNULL \<in> set evs
              \<and> take 6 args = [python_exe w, ''-m'', ''pip'', ''wheel'', ''--no-deps'',
                                ''--wheel-dir'']))"
proof -
  obtain r1 w1 where m: "mkdtemp w = (r1, w1)" by (cases "mkdtemp w")
  note me = mkdtemp_effect [OF m]
  show ?thesis
  proof (cases r1)
    case (Inl e)
    then have "w' = w1" "r = Inl e" using assms m by (simp_all add: enter_def)
    then show ?thesis using me by simp
  next
    case (Inr tmp)
    let ?s1 = "self\<lparr>dyn := (dyn self)(''_tmp_dir'' \<mapsto> PathV tmp)\<rparr>"
    obtain r2 s2 w2 where b: "build_wheel ?s1 tmp False w1 = (r2, s2, w2)"
      by (cases "build_wheel ?s1 tmp False w1")
    note be = build_wheel_effect [OF b]
    then have "\<exists>evs. trace w2 = trace w1 @ evs
      \<and> (\<forall>ev\<in>set evs. prep_event ev
                 \<or> (\<exists>root2. ev = Subprocess [python_exe w1, ''-m'', ''pip'', ''wheel'',
                        ''--no-deps'', ''--wheel-dir'', as_posix tmp, as_posix root2]
                        DEVNULL DEVNULL))
      \<and> (\<forall>p. r2 = Inr p \<longrightarrow>
                 (\<exists>root2. Subprocess [python_exe w1, ''-m'', ''pip'', ''wheel'',
                        ''--no-deps'', ''--wheel-dir'', as_posix tmp, as_posix root2]
                        DEVNULL DEVNULL \<in> set evs))"
      by simp
    then obtain evs where evs: "trace w2 = trace w1 @ evs"
      "\<forall>ev\<in>set evs. prep_event ev
                 \<or> (\<exists>root2. ev = Subprocess [python_exe w1, ''-m'', ''pip'', ''wheel'',
                        ''--no-deps'', ''--wheel-dir'', as_posix tmp, as_posix root2]
                        DEVNULL DEVNULL)"
      "\<forall>p. r2 = Inr p \<longrightarrow>
                 (\<exists>root2. Subprocess [python_exe w1, ''-m'', ''pip'', ''wheel'',
                        ''--no-deps'', ''--wheel-dir'', as_posix tmp, as_posix root2]
                        DEVNULL DEVNULL \<in> set evs)"
      by blast
    have w': "trace w' = trace w2" and rr: "r = Inr () \<longrightarrow> (\<exists>p. r2 = Inr p)"
      using assms m Inr b by (auto simp: enter_def Let_def split: sum.splits)
    have px: "python_exe w1 = python_exe w" using me by simp
    have q: "\<forall>args sout serr. Subprocess args sout serr \<in> set evs \<longrightarrow>
           args = [''git'', ''describe'', ''--tags'']
           \<or> (sout = DEVNULL \<and> serr = DEVNULL
               \<and> take 6 args = [python_exe w, ''-m'', ''pip'', ''wheel'', ''--no-deps'',
                                 ''--wheel-dir''])"
      using evs(2) px by (fastforce simp: prep_event_def)
    have d: "r = Inr () \<longrightarrow>
           (\<exists>args. Subprocess args DEVNULL DEVNULL \<in> set evs
              \<and> take 6 args = [python_exe w, ''-m'', ''pip'', ''wheel'', ''--no-deps'',
                                ''--wheel-dir''])"
      using evs(3) rr px by fastforce
    have "trace w' = trace w @ evs" using w' evs(1) me by simp
    then show ?thesis using q d by blast
  qed
qed

lemma build_wheel_result:
  assumes "build_wheel self tmp_dir verbose w = (Inr whl, self', w')"
  shows "first_whl (files w') tmp_dir = Inr whl"
proof -
  obtain r2 self2 w2 where p: "prepare_root self tmp_dir w = (r2, self2, w2)"
    by (cases "prepare_root self tmp_dir w")
  show ?thesis
  proof (cases r2)
    case (Inl e)
    then show ?thesis using assms p by (simp add: build_wheel_prepare_failed)
  next
    case (Inr root2)
    obtain failure f where t: "pip_wheel w2 tmp_dir root2 (files w2) = (failure, f)"
      by (cases "pip_wheel w2 tmp_dir root2 (files w2)")
    show ?thesis
      using build_wheel_after_prepare [OF _ t, where self = self and verbose = verbose] p Inr assms
      by (cases failure) auto
  qed
qed

lemma enter_ok:
  assumes "enter self w = (Inr (), self1, w1)"
  shows "\<exists>tmp whl w0.
     mkdtemp w = (Inr tmp, w0)
     \<and> dyn self1 ''_tmp_dir'' = Some (PathV tmp)
     \<and> dyn self1 ''_local_wheel'' = Some (PathV whl)
     \<and> dyn self1 ''_remote_wheel'' = Some (Str (install_folder self @ ''/wheels/'' @ name whl))
     \<and> dyn self1 ''_remote_dir_name''
         = Some (Str (dirname (install_folder self @ ''/wheels/'' @ name whl)))
     \<and> first_whl (files w1) tmp = Inr whl"
proof -
  obtain r0 w0 where m: "mkdtemp w = (r0, w0)" by (cases "mkdtemp w")
  show ?thesis
  proof (cases r0)
    case (Inl e)
    then show ?thesis using assms m by (simp add: enter_def)
  next
    case (Inr tmp)
    let ?s1 = "self\<lparr>dyn := (dyn self)(''_tmp_dir'' \<mapsto> PathV tmp)\<rparr>"
    obtain r2 s2 w2 where b: "build_wheel ?s1 tmp False w0 = (r2, s2, w2)"
      by (cases "build_wheel ?s1 tmp False w0")
    note be = build_wheel_effect [OF b]
    show ?thesis
    proof (cases r2)
      case (Inl e)
      then show ?thesis using assms m \<open>r0 = Inr tmp\<close> b by (simp add: enter_def)
    next
      case whl: (Inr whl)
      have d: "dyn s2 ''_tmp_dir'' = Some (PathV tmp)" and i: "install_folder s2 = install_folder self"
        using be by simp_all
      have f: "first_whl (files w2) tmp = Inr whl"
        using build_wheel_result b whl by simp
      have "self1 = s2\<lparr>dyn := (dyn s2)
                   (''_local_wheel'' \<mapsto> PathV whl,
                    ''_remote_wheel'' \<mapsto> Str (install_folder s2 @ ''/wheels/'' @ name whl),
                    ''_remote_dir_name'' \<mapsto> Str (dirname (install_folder s2 @ ''/wheels/'' @ name whl)))\<rparr>"
        and "w1 = w2"
        using assms m \<open>r0 = Inr tmp\<close> b whl by (simp_all add: enter_def Let_def)
      then show ?thesis using m \<open>r0 = Inr tmp\<close> d i f by simp
    qed
  qed
qed

lemma rmtree_removes: "prefix d p \<Longrightarrow> \<not> path_exists (rmtree d f) p"
proof -
  assume "prefix d p"
  then have "p \<notin> fst ` set (rmtree d f)" by (auto simp: rmtree_def)
  then show ?thesis by (simp add: path_exists_def map_of_eq_None_iff)
qed

subsection \<open>The temporary directory after the scope\<close>

text \<open>
  C7: when \<open>__enter__\<close> has succeeded, the temporary directory it created is one that
  did not exist before and exists inside the scope; however the body ends, with a value
  or with an exception, and whatever it did to the file system, \<open>__exit__\<close> runs,
  the outcome of the body is the outcome of the scope, and afterwards neither the
  directory nor anything below it exists. The body is any code that leaves the
  attribute \<open>_tmp_dir\<close> of the object alone, as every method of the class does.
\<close>

theorem scope_removes_tmp_dir:
  assumes "enter self w = (Inr (), self1, w1)"
    and "body self1 w1 = (r, self2, w2)"
    and "dyn self2 ''_tmp_dir'' = dyn self1 ''_tmp_dir''"
  shows "\<exists>tmp. dyn self1 ''_tmp_dir'' = Some (PathV tmp)
     \<and> tmp \<in> set (tmp_candidates w) \<and> \<not> path_exists (files w) tmp
     \<and> is_dir (files w1) tmp
     \<and> with_scope self body w = (r, self2, w2\<lparr>files := rmtree tmp (files w2)\<rparr>)
     \<and> (\<forall>p. prefix tmp p \<longrightarrow>
           \<not> path_exists (files (snd (snd (with_scope self body w)))) p)"
proof -
  obtain tmp whl w0 where e: "mkdtemp w = (Inr tmp, w0)"
    "dyn self1 ''_tmp_dir'' = Some (PathV tmp)" "first_whl (files w1) tmp = Inr whl"
    using enter_ok [OF assms(1)] by blast
  have c: "tmp \<in> set (tmp_candidates w)" "\<not> path_exists (files w) tmp"
    using mkdtemp_effect [OF e(1)] by simp_all
  have d: "is_dir (files w1) tmp" using first_whl_sound [OF e(3)] by simp
  have x: "exit self2 w2 = (Inr (), self2, w2\<lparr>files := rmtree tmp (files w2)\<rparr>)"
    using e(2) assms(3) by (simp add: exit_def getattr_path_def)
  have s: "with_scope self body w = (r, self2, w2\<lparr>files := rmtree tmp (files w2)\<rparr>)"
    using assms(1,2) x by (simp add: with_scope_def)
  show ?thesis using e(2) c d s rmtree_removes [of tmp] by auto
qed

lemma example_first_whl: "first_whl entered_files [''tmp'', ''w1''] = Inr [''tmp'', ''w1'', ''blueprint.whl'']"
  by code_simp

lemma example_dirname:
  "dirname ''/Users/me/.blueprint/wheels/blueprint.whl'' = ''/Users/me/.blueprint/wheels''"
  by code_simp

lemma example_enter:
  "enter example_wheels (example_world released_tree (Inl git_failure))
     = (Inr (), entered_wheels, entered_world)"
proof -
  let ?w = "example_world released_tree (Inl git_failure)"
  let ?wa = "?w\<lparr>files := released_tree @ [([''tmp'', ''w1''], Dir)]\<rparr>"
  let ?sa = "example_wheels\<lparr>dyn := (dyn example_wheels)(''_tmp_dir'' \<mapsto> PathV [''tmp'', ''w1''])\<rparr>"
  have m1: "\<not> path_exists released_tree [''tmp'', ''w1'']"
    by (simp add: path_exists_def released_tree_def)
  have m2: "tmp_candidates ?w = [[''tmp'', ''w1'']]"
    by (simp add: example_world_def)
  have m3: "files ?w = released_tree"
    by (simp add: example_world_def)
  have m: "mkdtemp ?w = (Inr [''tmp'', ''w1''], ?wa)"
    using m1 m2 m3 by (simp add: mkdtemp_def)
  have f: "\<not> hasattr ?sa ''__version''"
    using example_wheels_fresh by (simp add: not_hasattr_version)
  have r: "project_root ?wa = Inr [''proj'']" by (simp add: example_world_def)
  have g: "\<not> path_exists (files ?wa) ([''proj''] @ [''.git'', ''config''])"
    by (simp add: example_world_def path_exists_def released_tree_def)
  let ?wb = "?wa\<lparr>trace := [LogDebug ''Building wheel for /proj in /tmp/w1'']\<rparr>"
  have p: "prepare_root ?sa [''tmp'', ''w1''] ?wa = (Inr [''proj''], ?sa, ?wb)"
    using prepare_root_released [OF f r g, where tmp_dir = "[''tmp'', ''w1'']"]
    by (simp add: as_posix_def example_world_def)
  have t: "pip_wheel ?wb [''tmp'', ''w1''] [''proj''] (files ?wb) = (None, entered_files)"
    by (simp add: example_world_def example_pip_def entered_files_def)
  have b: "build_wheel ?sa [''tmp'', ''w1''] False ?wa =
      (Inr [''tmp'', ''w1'', ''blueprint.whl''], ?sa,
       ?wb\<lparr>files := entered_files,
           trace := trace ?wb @
             [Subprocess [python_exe ?wb, ''-m'', ''pip'', ''wheel'', ''--no-deps'',
                          ''--wheel-dir'', as_posix [''tmp'', ''w1''], as_posix [''proj'']]
                DEVNULL DEVNULL]\<rparr>)"
    using build_wheel_after_prepare [OF p t, of False] example_first_whl by simp
  have i: "install_folder ?sa = ''/Users/me/.blueprint''"
    by (simp add: example_wheels_def init_def)
  show ?thesis
    using m b i example_dirname
    by (simp add: enter_def name_def entered_wheels_def entered_world_def as_posix_def
          example_world_def)
qed

theorem enter_runs_tool_quietly_witness:
  "enter example_wheels (example_world released_tree (Inl git_failure))
     = (Inr (), entered_wheels, entered_world)
   \<and> trace entered_world =
       [LogDebug ''Building wheel for /proj in /tmp/w1'',
        Subprocess [''python3'', ''-m'', ''pip'', ''wheel'', ''--no-deps'',
                    ''--wheel-dir'', ''/tmp/w1'', ''/proj''] DEVNULL DEVNULL]
   \<and> (\<exists>evs. trace entered_world
               = trace (example_world released_tree (Inl git_failure)) @ evs
          \<and> (\<exists>args. Subprocess args DEVNULL DEVNULL \<in> set evs
                \<and> take 6 args = [''python3'', ''-m'', ''pip'', ''wheel'', ''--no-deps'',
                                  ''--wheel-dir'']))"
proof -
  have x: "python_exe (example_world released_tree (Inl git_failure)) = ''python3''"
    by (simp add: example_world_def)
  have "\<exists>evs. trace entered_world
               = trace (example_world released_tree (Inl git_failure)) @ evs
          \<and> (\<exists>args. Subprocess args DEVNULL DEVNULL \<in> set evs
                \<and> take 6 args = [''python3'', ''-m'', ''pip'', ''wheel'', ''--no-deps'',
                                  ''--wheel-dir''])"
    using enter_runs_tool_quietly [OF example_enter] unfolding x by blast
  then show ?thesis using example_enter by (simp add: entered_world_def)
qed

lemma raising_body_entered:
  "raising_body entered_wheels entered_world
     = (Inl (Err ValueError ''boom''), entered_wheels, entered_world)"
  by (simp add: raising_body_def)

theorem scope_removes_tmp_dir_witness:
  "enter example_wheels (example_world released_tree (Inl git_failure))
     = (Inr (), entered_wheels, entered_world)
   \<and> raising_body entered_wheels entered_world
       = (Inl (Err ValueError ''boom''), entered_wheels, entered_world)
   \<and> path_exists (files entered_world) [''tmp'', ''w1'', ''blueprint.whl'']
   \<and> fst (with_scope example_wheels raising_body
             (example_world released_tree (Inl git_failure)))
       = Inl (Err ValueError ''boom'')
   \<and> \<not> path_exists
         (files (snd (snd (with_scope example_wheels raising_body
                             (example_world released_tree (Inl git_failure))))))
         [''tmp'', ''w1'']
   \<and> \<not> path_exists
         (files (snd (snd (with_scope example_wheels raising_body
                             (example_world released_tree (Inl git_failure))))))
         [''tmp'', ''w1'', ''blueprint.whl'']"
proof -
  let ?w = "example_world released_tree (Inl git_failure)"
  obtain tmp where t: "dyn entered_wheels ''_tmp_dir'' = Some (PathV tmp)"
    "with_scope example_wheels raising_body ?w
       = (Inl (Err ValueError ''boom''), entered_wheels,
          entered_world\<lparr>files := rmtree tmp (files entered_world)\<rparr>)"
    "\<forall>p. prefix tmp p \<longrightarrow>
           \<not> path_exists (files (snd (snd (with_scope example_wheels raising_body ?w)))) p"
    using scope_removes_tmp_dir [where body = raising_body, OF example_enter raising_body_entered refl]
    by blast
  have "tmp = [''tmp'', ''w1'']" using t(1) by (simp add: entered_wheels_def)
  then have "prefix tmp [''tmp'', ''w1'']" "prefix tmp [''tmp'', ''w1'', ''blueprint.whl'']"
    by simp_all
  then have n: "\<not> path_exists (files (snd (snd (with_scope example_wheels raising_body ?w))))
                   [''tmp'', ''w1'']"
     "\<not> path_exists (files (snd (snd (with_scope example_wheels raising_body ?w))))
                   [''tmp'', ''w1'', ''blueprint.whl'']"
    using t(3) by blast+
  have e: "path_exists (files entered_world) [''tmp'', ''w1'', ''blueprint.whl'']"
    by (simp add: entered_world_def entered_files_def released_tree_def path_exists_def)
  show ?thesis using example_enter raising_body_entered e t(2) n by simp
qed

lemma dirname_wheels:
  assumes "CHR ''/'' \<notin> set n"
  shows "dirname (folder @ ''/wheels/'' @ n) = folder @ ''/wheels''"
proof -
  have "dropWhile (\<lambda>c. c \<noteq> CHR ''/'') (rev n @ ''/sleehw/'' @ rev folder)
          = ''/sleehw/'' @ rev folder"
    by (subst dropWhile_append2) (use assms in auto)
  then have h: "rev (dropWhile (\<lambda>c. c \<noteq> CHR ''/'') (rev (folder @ ''/wheels/'' @ n)))
          = folder @ ''/wheels/''"
    by simp
  show ?thesis unfolding dirname_def Let_def h by simp
qed

lemma remote_mkdirs_ok:
  assumes "\<forall>c. store d \<noteq> Some (RFile c)" and "d \<noteq> rw"
  shows "\<exists>st. remote_mkdirs d store = Inr st \<and> st d = Some RDir \<and> st rw = store rw"
proof (cases "store d")
  case None
  then show ?thesis using assms(2) by (simp add: remote_mkdirs_def)
next
  case (Some a)
  then have "a = RDir" using assms(1) by (cases a) auto
  then show ?thesis using Some by (simp add: remote_mkdirs_def)
qed

lemma upload_to_dbfs_ok:
  assumes "dyn s ''_local_wheel'' = Some (PathV whl)"
    and "dyn s ''_remote_dir_name'' = Some (Str d)"
    and "dyn s ''_remote_wheel'' = Some (Str rw)"
    and "open_rb (files w) whl = Inr content"
    and "\<forall>c. dbfs w d \<noteq> Some (RFile c)" and "dbfs w rw \<noteq> Some RDir" and "d \<noteq> rw"
  shows "\<exists>w'. upload_to_dbfs s w = (Inr rw, w')
     \<and> files w' = files w \<and> wsfs w' = wsfs w
     \<and> dbfs w' d = Some RDir \<and> dbfs w' rw = Some (RFile content)
     \<and> trace w' = trace w @ [DbfsMkdirs d, LogInfo (''Uploading wheel to dbfs:'' @ rw),
                               DbfsUpload rw content True]"
proof -
  obtain st where m: "remote_mkdirs d (dbfs w) = Inr st" "st d = Some RDir" "st rw = dbfs w rw"
    using remote_mkdirs_ok [where store = "dbfs w" and d = d and rw = rw] assms(5,7) by blast
  have u: "remote_upload rw content True st = Inr (st(rw \<mapsto> RFile content))"
    using m(3) assms(6) by (auto simp: remote_upload_def split: option.splits rnode.splits)
  show ?thesis
    using assms(1-4,7) m u
    by (simp add: upload_to_dbfs_def getattr_path_def getattr_str_def)
qed

lemma upload_to_wsfs_ok:
  assumes "dyn s ''_local_wheel'' = Some (PathV whl)"
    and "dyn s ''_remote_dir_name'' = Some (Str d)"
    and "dyn s ''_remote_wheel'' = Some (Str rw)"
    and "open_rb (files w) whl = Inr content"
    and "\<forall>c. wsfs w d \<noteq> Some (RFile c)" and "wsfs w rw \<noteq> Some RDir" and "d \<noteq> rw"
  shows "\<exists>w'. upload_to_wsfs s w = (Inr rw, w')
     \<and> files w' = files w \<and> dbfs w' = dbfs w
     \<and> wsfs w' d = Some RDir \<and> wsfs w' rw = Some (RFile content)
     \<and> trace w' = trace w @ [WorkspaceMkdirs d, LogInfo (''Uploading wheel to /Workspace'' @ rw),
                               WorkspaceUpload rw content True ''AUTO'']"
proof -
  obtain st where m: "remote_mkdirs d (wsfs w) = Inr st" "st d = Some RDir" "st rw = wsfs w rw"
    using remote_mkdirs_ok [where store = "wsfs w" and d = d and rw = rw] assms(5,7) by blast
  have u: "remote_upload rw content True st = Inr (st(rw \<mapsto> RFile content))"
    using m(3) assms(6) by (auto simp: remote_upload_def split: option.splits rnode.splits)
  show ?thesis
    using assms(1-4,7) m u
    by (simp add: upload_to_wsfs_def getattr_path_def getattr_str_def)
qed

subsection \<open>The uploads\<close>

text \<open>
  C8: after a successful \<open>__enter__\<close>, in any world where the local wheel can still be
  read and the remote paths are not taken by an entry of the other kind,
  \<open>upload_to_dbfs()\<close> and \<open>upload_to_wsfs()\<close> each return
  \<open><install folder>/wheels/<name of the wheel>\<close>, the same string, each calls
  \<open>mkdirs\<close> on \<open><install folder>/wheels\<close> before the upload with
  \<open>overwrite=True\<close>, and a second call right after the first returns the same path
  again. The remote store is the one modelled from the spec.
\<close>

theorem uploads_return_remote_path:
  assumes "enter self w = (Inr (), self1, w1)"
    and "dyn self1 ''_local_wheel'' = Some (PathV whl)"
    and "CHR ''/'' \<notin> set (name whl)"
    and "open_rb (files w2) whl = Inr content"
    and "\<forall>c. dbfs w2 (install_folder self @ ''/wheels'') \<noteq> Some (RFile c)"
    and "dbfs w2 (install_folder self @ ''/wheels/'' @ name whl) \<noteq> Some RDir"
    and "\<forall>c. wsfs w2 (install_folder self @ ''/wheels'') \<noteq> Some (RFile c)"
    and "wsfs w2 (install_folder self @ ''/wheels/'' @ name whl) \<noteq> Some RDir"
  shows "(\<exists>w3 w4.
            upload_to_dbfs self1 w2 = (Inr (install_folder self @ ''/wheels/'' @ name whl), w3)
          \<and> upload_to_dbfs self1 w3 = (Inr (install_folder self @ ''/wheels/'' @ name whl), w4)
          \<and> trace w3 = trace w2 @
               [DbfsMkdirs (install_folder self @ ''/wheels''),
                LogInfo (''Uploading wheel to dbfs:'' @ install_folder self @ ''/wheels/'' @ name whl),
                DbfsUpload (install_folder self @ ''/wheels/'' @ name whl) content True]
          \<and> dbfs w4 (install_folder self @ ''/wheels'') = Some RDir
          \<and> dbfs w4 (install_folder self @ ''/wheels/'' @ name whl) = Some (RFile content))
       \<and> (\<exists>w3 w4.
            upload_to_wsfs self1 w2 = (Inr (install_folder self @ ''/wheels/'' @ name whl), w3)
          \<and> upload_to_wsfs self1 w3 = (Inr (install_folder self @ ''/wheels/'' @ name whl), w4)
          \<and> trace w3 = trace w2 @
               [WorkspaceMkdirs (install_folder self @ ''/wheels''),
                LogInfo (''Uploading wheel to /Workspace'' @ install_folder self @ ''/wheels/''
                         @ name whl),
                WorkspaceUpload (install_folder self @ ''/wheels/'' @ name whl) content True
                  ''AUTO'']
          \<and> wsfs w4 (install_folder self @ ''/wheels'') = Some RDir
          \<and> wsfs w4 (install_folder self @ ''/wheels/'' @ name whl) = Some (RFile content))"
proof -
  let ?d = "install_folder self @ ''/wheels''"
  let ?r = "install_folder self @ ''/wheels/'' @ name whl"
  obtain whl' where e: "dyn self1 ''_local_wheel'' = Some (PathV whl')"
    "dyn self1 ''_remote_wheel'' = Some (Str (install_folder self @ ''/wheels/'' @ name whl'))"
    "dyn self1 ''_remote_dir_name''
         = Some (Str (dirname (install_folder self @ ''/wheels/'' @ name whl')))"
    using enter_ok [OF assms(1)] by blast
  have w: "whl' = whl" using e(1) assms(2) by simp
  have a: "dyn self1 ''_remote_wheel'' = Some (Str ?r)" using e(2) w by simp
  have b: "dyn self1 ''_remote_dir_name'' = Some (Str ?d)"
    using e(3) w dirname_wheels [OF assms(3)] by simp
  have ne: "?d \<noteq> ?r" by simp
  obtain w3 where d1: "upload_to_dbfs self1 w2 = (Inr ?r, w3)" "files w3 = files w2"
    "dbfs w3 ?d = Some RDir" "dbfs w3 ?r = Some (RFile content)"
    "trace w3 = trace w2 @ [DbfsMkdirs ?d, LogInfo (''Uploading wheel to dbfs:'' @ ?r),
                               DbfsUpload ?r content True]"
    using upload_to_dbfs_ok [OF assms(2) b a assms(4) assms(5) assms(6) ne] by blast
  have o3: "open_rb (files w3) whl = Inr content" using d1(2) assms(4) by simp
  obtain w4 where d2: "upload_to_dbfs self1 w3 = (Inr ?r, w4)"
    "dbfs w4 ?d = Some RDir" "dbfs w4 ?r = Some (RFile content)"
    using upload_to_dbfs_ok [OF assms(2) b a o3 _ _ ne] d1(3,4) by auto
  obtain v3 where s1: "upload_to_wsfs self1 w2 = (Inr ?r, v3)" "files v3 = files w2"
    "wsfs v3 ?d = Some RDir" "wsfs v3 ?r = Some (RFile content)"
    "trace v3 = trace w2 @ [WorkspaceMkdirs ?d, LogInfo (''Uploading wheel to /Workspace'' @ ?r),
                               WorkspaceUpload ?r content True ''AUTO'']"
    using upload_to_wsfs_ok [OF assms(2) b a assms(4) assms(7) assms(8) ne] by blast
  have p3: "open_rb (files v3) whl = Inr content" using s1(2) assms(4) by simp
  obtain v4 where s2: "upload_to_wsfs self1 v3 = (Inr ?r, v4)"
    "wsfs v4 ?d = Some RDir" "wsfs v4 ?r = Some (RFile content)"
    using upload_to_wsfs_ok [OF assms(2) b a p3 _ _ ne] s1(3,4) by auto
  have A: "\<exists>w3 w4.
            upload_to_dbfs self1 w2 = (Inr ?r, w3)
          \<and> upload_to_dbfs self1 w3 = (Inr ?r, w4)
          \<and> trace w3 = trace w2 @
               [DbfsMkdirs ?d, LogInfo (''Uploading wheel to dbfs:'' @ ?r),
                DbfsUpload ?r content True]
          \<and> dbfs w4 ?d = Some RDir \<and> dbfs w4 ?r = Some (RFile content)"
    using d1 d2 by blast
  have B: "\<exists>w3 w4.
            upload_to_wsfs self1 w2 = (Inr ?r, w3)
          \<and> upload_to_wsfs self1 w3 = (Inr ?r, w4)
          \<and> trace w3 = trace w2 @
               [WorkspaceMkdirs ?d, LogInfo (''Uploading wheel to /Workspace'' @ ?r),
                WorkspaceUpload ?r content True ''AUTO'']
          \<and> wsfs w4 ?d = Some RDir \<and> wsfs w4 ?r = Some (RFile content)"
    using s1 s2 by blast
  show ?thesis using A B by simp
qed


lemma entered_open_rb:
  "open_rb (files entered_world) [''tmp'', ''w1'', ''blueprint.whl''] = Inr ''wheel''"
  by (simp add: entered_world_def entered_files_def released_tree_def open_rb_def)

theorem uploads_return_remote_path_witness:
  "enter example_wheels (example_world released_tree (Inl git_failure))
     = (Inr (), entered_wheels, entered_world)
   \<and> dyn entered_wheels ''_local_wheel'' = Some (PathV [''tmp'', ''w1'', ''blueprint.whl''])
   \<and> CHR ''/'' \<notin> set (name [''tmp'', ''w1'', ''blueprint.whl''])
   \<and> open_rb (files entered_world) [''tmp'', ''w1'', ''blueprint.whl''] = Inr ''wheel''
   \<and> dbfs entered_world = Map.empty \<and> wsfs entered_world = Map.empty
   \<and> fst (upload_to_dbfs entered_wheels entered_world)
       = Inr ''/Users/me/.blueprint/wheels/blueprint.whl''
   \<and> fst (upload_to_dbfs entered_wheels (snd (upload_to_dbfs entered_wheels entered_world)))
       = Inr ''/Users/me/.blueprint/wheels/blueprint.whl''
   \<and> fst (upload_to_wsfs entered_wheels entered_world)
       = Inr ''/Users/me/.blueprint/wheels/blueprint.whl''
   \<and> fst (upload_to_wsfs entered_wheels (snd (upload_to_wsfs entered_wheels entered_world)))
       = Inr ''/Users/me/.blueprint/wheels/blueprint.whl''"
proof -
  have l: "dyn entered_wheels ''_local_wheel'' = Some (PathV [''tmp'', ''w1'', ''blueprint.whl''])"
    by (simp add: entered_wheels_def)
  have n: "CHR ''/'' \<notin> set (name [''tmp'', ''w1'', ''blueprint.whl''])"
    by (simp add: name_def)
  have d: "dbfs entered_world = Map.empty" and s: "wsfs entered_world = Map.empty"
    by (simp_all add: entered_world_def example_world_def)
  have i: "install_folder example_wheels = ''/Users/me/.blueprint''"
    by (simp add: example_wheels_def init_def)
  have nm: "name [''tmp'', ''w1'', ''blueprint.whl''] = ''blueprint.whl''"
    by (simp add: name_def)
  note t = uploads_return_remote_path [OF example_enter l n entered_open_rb,
      unfolded i nm d s]
  have "fst (upload_to_dbfs entered_wheels entered_world)
       = Inr ''/Users/me/.blueprint/wheels/blueprint.whl''
   \<and> fst (upload_to_dbfs entered_wheels (snd (upload_to_dbfs entered_wheels entered_world)))
       = Inr ''/Users/me/.blueprint/wheels/blueprint.whl''
   \<and> fst (upload_to_wsfs entered_wheels entered_world)
       = Inr ''/Users/me/.blueprint/wheels/blueprint.whl''
   \<and> fst (upload_to_wsfs entered_wheels (snd (upload_to_wsfs entered_wheels entered_world)))
       = Inr ''/Users/me/.blueprint/wheels/blueprint.whl''"
    using t by auto
  then show ?thesis using example_enter l n entered_open_rb d s by simp
qed

subsection \<open>Facts about the file system\<close>

lemma makedirs_lookup:
  assumes "makedirs d f = Inr f1"
  shows "map_of f1 p = (if prefix p d \<and> map_of f p = None then Some Dir else map_of f p)"
proof -
  let ?new = "map (\<lambda>q. (q, Dir)) (filter (\<lambda>q. \<not> path_exists f q) (prefixes d))"
  have f1: "f1 = ?new @ f"
    using assms by (auto simp: makedirs_def split: if_splits)
  have "map_of ?new p = (if prefix p d \<and> map_of f p = None then Some Dir else None)"
    by (auto simp: map_of_map_restrict restrict_map_def in_set_prefixes path_exists_def)
  then show ?thesis unfolding f1 by (simp add: map_add_def)
qed

lemma copies_lookup:
  assumes "q \<noteq> []"
  shows "map_of (map (\<lambda>(p, n). (dst @ drop (length src) p, n))
                   (filter (\<lambda>(p, n). strict_prefix src p) f)) (dst @ q)
         = map_of f (src @ q)"
proof (induction f)
  case Nil
  then show ?case by simp
next
  case (Cons e f)
  obtain p n where e: "e = (p, n)" by (cases e)
  show ?case
  proof (cases "strict_prefix src p")
    case True
    then obtain r where r: "p = src @ r" by (auto simp: strict_prefix_def prefix_def)
    then show ?thesis using Cons e True by simp
  next
    case False
    then have "p \<noteq> src @ q" using assms by (auto simp: strict_prefix_def)
    then show ?thesis using Cons e False by simp
  qed
qed

lemma copies_outside:
  assumes "\<not> prefix dst p"
  shows "map_of (map (\<lambda>(p, n). (dst @ drop (length src) p, n))
                   (filter (\<lambda>(p, n). strict_prefix src p) f)) p = None"
proof -
  have "p \<notin> fst ` set (map (\<lambda>(p, n). (dst @ drop (length src) p, n))
                   (filter (\<lambda>(p, n). strict_prefix src p) f))"
    using assms by auto
  then show ?thesis by (simp add: map_of_eq_None_iff)
qed

lemma copytree_lookup:
  assumes "copytree src dst f = Inr f1"
  shows "(\<forall>q. q \<noteq> [] \<and> path_exists f (src @ q) \<longrightarrow> map_of f1 (dst @ q) = map_of f (src @ q))
       \<and> (\<forall>p. \<not> prefix dst p \<and> \<not> prefix p dst \<longrightarrow> map_of f1 p = map_of f p)
       \<and> is_dir f src \<and> \<not> path_exists f dst \<and> is_dir f1 dst"
proof -
  let ?c = "map (\<lambda>(p, n). (dst @ drop (length src) p, n))
                   (filter (\<lambda>(p, n). strict_prefix src p) f)"
  obtain fm where m: "makedirs dst f = Inr fm" and f1: "f1 = ?c @ fm" and s: "is_dir f src"
    using assms by (auto simp: copytree_def split: if_splits sum.splits)
  note ml = makedirs_lookup [OF m]
  have nd: "\<not> path_exists f dst"
    using m by (auto simp: makedirs_def split: if_splits)
  have a: "\<forall>q. q \<noteq> [] \<and> path_exists f (src @ q) \<longrightarrow> map_of f1 (dst @ q) = map_of f (src @ q)"
    unfolding f1 by (auto simp: map_add_def copies_lookup path_exists_def split: option.splits)
  have b: "\<forall>p. \<not> prefix dst p \<and> \<not> prefix p dst \<longrightarrow> map_of f1 p = map_of f p"
    unfolding f1 by (simp add: map_add_def copies_outside ml)
  have "map_of ?c dst = None"
  proof -
    have "dst \<notin> fst ` set ?c" by (auto simp: strict_prefix_def prefix_def)
    then show ?thesis by (simp add: map_of_eq_None_iff)
  qed
  then have c: "is_dir f1 dst"
    unfolding f1 using nd by (simp add: map_add_def ml is_dir_def path_exists_def)
  show ?thesis using a b s nd c by simp
qed

lemma version_git_stored:
  assumes "\<not> hasattr self ''__version''" and "project_root w = Inr root"
    and "path_exists (files w) (root @ [''.git'', ''config''])"
    and "version self w = (Inr v, self', w')"
  shows "dyn self' ''_Wheels__version'' = Some (Str v) \<and> CHR ''+'' \<in> set v"
proof -
  note g = version_git [OF assms(1-3)]
  show ?thesis
  proof (cases "git_describe w (git_runs w)")
    case (Inl e)
    then show ?thesis using g assms(4) by simp
  next
    case (Inr out)
    obtain r w2 where u: "unreleased out (snd (run_git w)) = (r, w2)"
      by (cases "unreleased out (snd (run_git w))")
    have "r = Inr v" and s: "self' = self\<lparr>dyn := (dyn self)(''_Wheels__version'' \<mapsto> Str v)\<rparr>"
      using g assms(4) Inr u by (cases r; simp)+
    then obtain dv where "v = semver_and_pep0440 dv (strftime (clock (snd (run_git w)) (clock_reads (snd (run_git w)))))"
      using unreleased_cases [OF u] by auto
    then have "CHR ''+'' \<in> set v" by (simp add: semver_and_pep0440_def)
    then show ?thesis using s by simp
  qed
qed

lemma write_text_lookup:
  assumes "write_text p c f = Inr f1"
  shows "map_of f1 = (map_of f)(p \<mapsto> File c)"
  using assms by (auto simp: write_text_def update_conv' split: if_splits)

lemma working_copy_frame:
  assumes "working_copy self root tmp_dir w = (r, self', w')"
    and "\<not> prefix (tmp_dir @ [''working-copy'']) p"
    and "\<not> prefix p (tmp_dir @ [''working-copy''])"
  shows "map_of (files w') p = map_of (files w) p"
proof (cases "copytree root (tmp_dir @ [''working-copy'']) (files w)")
  case (Inl e)
  then show ?thesis using assms(1) by (auto simp: working_copy_def)
next
  case (Inr f1)
  have c: "map_of f1 p = map_of (files w) p"
    using copytree_lookup [OF Inr] assms(2,3) by simp
  have ne: "p \<noteq> tmp_dir @ [''working-copy''] @ about_file self"
    using assms(2) by auto
  show ?thesis
  proof (cases "write_text (tmp_dir @ [''working-copy''] @ about_file self) [] f1")
    case (Inl e)
    then show ?thesis using assms(1) Inr c by (auto simp: working_copy_def)
  next
    case f2: (Inr f2)
    have c2: "map_of f2 p = map_of (files w) p"
      using write_text_lookup [OF f2] ne c by simp
    obtain r2 s2 w2 where v: "version self (w\<lparr>files := f2\<rparr>) = (r2, s2, w2)"
      by (cases "version self (w\<lparr>files := f2\<rparr>)")
    have fw: "files w2 = f2" using version_effect [OF v] by simp
    show ?thesis using assms(1) Inr f2 v fw c2 ne
      by (cases r2) (auto simp: working_copy_def update_conv')
  qed
qed

lemma working_copy_ok:
  assumes "\<not> hasattr self ''__version''" and "project_root w = Inr root"
    and "path_exists (files w) (root @ [''.git'', ''config''])"
    and "\<not> prefix root tmp_dir" and "\<not> prefix tmp_dir root"
    and "working_copy self root tmp_dir w = (Inr root2, self', w')"
  shows "root2 = tmp_dir @ [''working-copy''] \<and> root2 \<noteq> root
     \<and> (\<exists>v. dyn self' ''_Wheels__version'' = Some (Str v) \<and> CHR ''+'' \<in> set v
           \<and> map_of (files w') (root2 @ about_file self)
               = Some (File (''__version__ = '' @ [dquote] @ v @ [dquote])))
     \<and> (\<forall>q. q \<noteq> [] \<and> q \<noteq> about_file self \<and> path_exists (files w) (root @ q)
           \<longrightarrow> map_of (files w') (root2 @ q) = map_of (files w) (root @ q))"
proof -
  let ?dst = "tmp_dir @ [''working-copy'']"
  obtain f1 where c: "copytree root ?dst (files w) = Inr f1"
    using assms(6) by (cases "copytree root ?dst (files w)") (auto simp: working_copy_def)
  note cl = copytree_lookup [OF c]
  obtain f2 where t: "write_text (?dst @ about_file self) [] f1 = Inr f2"
    using assms(6) c
    by (cases "write_text (?dst @ about_file self) [] f1") (auto simp: working_copy_def)
  note tl = write_text_lookup [OF t]
  obtain r2 s2 w2 where v: "version self (w\<lparr>files := f2\<rparr>) = (r2, s2, w2)"
    by (cases "version self (w\<lparr>files := f2\<rparr>)")
  obtain v2 where r2: "r2 = Inr v2"
    using assms(6) c t v by (cases r2) (auto simp: working_copy_def)
  have res: "root2 = ?dst" "self' = s2"
    "w' = w2\<lparr>files := AList.update (?dst @ about_file self)
                        (File (''__version__ = '' @ [dquote] @ v2 @ [dquote])) (files w2)\<rparr>"
    using assms(6) c t v r2 by (auto simp: working_copy_def)
  have fw: "files w2 = f2" using version_effect [OF v] by simp
  have inc: "\<not> prefix ?dst (root @ [''.git'', ''config''])"
       "\<not> prefix (root @ [''.git'', ''config'']) ?dst"
    using assms(4,5) by (auto simp: prefix_def append_eq_append_conv2 append_eq_Cons_conv Cons_eq_append_conv)
  have g1: "map_of f1 (root @ [''.git'', ''config'']) = map_of (files w) (root @ [''.git'', ''config''])"
    using cl inc by simp
  have "root @ [''.git'', ''config''] \<noteq> ?dst @ about_file self"
    using inc(1) by auto
  then have g2: "path_exists f2 (root @ [''.git'', ''config''])"
    using tl g1 assms(3) by (simp add: path_exists_def)
  have st: "dyn s2 ''_Wheels__version'' = Some (Str v2) \<and> CHR ''+'' \<in> set v2"
    using version_git_stored [OF assms(1), of "w\<lparr>files := f2\<rparr>" root v2 s2 w2] assms(2) g2 v r2
    by simp
  have ne: "?dst \<noteq> root" using assms(5) by auto
  have mk: "map_of (files w') (?dst @ about_file self)
               = Some (File (''__version__ = '' @ [dquote] @ v2 @ [dquote]))"
    using res(3) by (simp add: update_conv')
  have cp: "\<forall>q. q \<noteq> [] \<and> q \<noteq> about_file self \<and> path_exists (files w) (root @ q)
           \<longrightarrow> map_of (files w') (?dst @ q) = map_of (files w) (root @ q)"
    using res(3) fw tl cl by (simp add: update_conv')
  show ?thesis using res(1,2) ne st mk cp by simp
qed

lemma incomparable:
  assumes "\<not> prefix root tmp_dir" and "\<not> prefix tmp_dir root" and "prefix root p"
  shows "\<not> prefix (tmp_dir @ [c]) p \<and> \<not> prefix p (tmp_dir @ [c])"
proof -
  have a: "\<not> prefix root (tmp_dir @ [c])"
    using assms(1,2) by (auto simp: prefix_snoc)
  have b: "\<not> prefix (tmp_dir @ [c]) root"
    using assms(2) by (meson append_prefixD)
  have "prefix (tmp_dir @ [c]) p \<Longrightarrow> False"
    using assms(3) a b prefix_same_cases by blast
  moreover have "prefix p (tmp_dir @ [c]) \<Longrightarrow> False"
    using assms(3) a prefix_order.trans by blast
  ultimately show ?thesis by blast
qed

lemma prepare_root_frame:
  assumes "project_root w = Inr root" and "\<not> prefix root tmp_dir" and "\<not> prefix tmp_dir root"
    and "prepare_root self tmp_dir w = (r, self', w')" and "prefix root p"
  shows "map_of (files w') p = map_of (files w) p"
proof -
  note inc = incomparable [OF assms(2,3,5), of "''working-copy''"]
  obtain r1 s1 w1 where v: "version self w = (r1, s1, w1)" by (cases "version self w")
  have fw: "files w1 = files w" using version_effect [OF v] by simp
  show ?thesis
  proof (cases r1)
    case (Inl e)
    then show ?thesis using assms(1,4) v fw by (simp add: prepare_root_def)
  next
    case v1: (Inr v1)
    show ?thesis
    proof (cases "path_exists (files w1) (root @ [''.git'', ''config'']) \<and> CHR ''+'' \<in> set v1")
      case False
      then show ?thesis using assms(1,4) v v1 fw by (auto simp: prepare_root_def)
    next
      case True
      obtain r2 s2 w2 where c: "working_copy s1 root tmp_dir w1 = (r2, s2, w2)"
        by (cases "working_copy s1 root tmp_dir w1")
      have f2: "map_of (files w2) p = map_of (files w) p"
        using working_copy_frame [OF c] inc fw by simp
      from True have T: "path_exists (files w1) (root @ [''.git'', ''config''])" "CHR ''+'' \<in> set v1"
        by simp_all
      show ?thesis using assms(1,4) v v1 T c f2
        by (cases r2) (auto simp: prepare_root_def)
    qed
  qed
qed

lemma prepare_root_cases:
  assumes "\<not> hasattr self ''__version''" and "project_root w = Inr root"
    and "\<not> prefix root tmp_dir" and "\<not> prefix tmp_dir root"
    and "prepare_root self tmp_dir w = (Inr root2, self2, w2)"
  shows "if path_exists (files w) (root @ [''.git'', ''config''])
            \<and> (\<exists>v. fst (version self w) = Inr v \<and> CHR ''+'' \<in> set v)
         then root2 = tmp_dir @ [''working-copy''] \<and> root2 \<noteq> root
            \<and> (\<exists>v. dyn self2 ''_Wheels__version'' = Some (Str v) \<and> CHR ''+'' \<in> set v
                  \<and> map_of (files w2) (root2 @ about_file self)
                      = Some (File (''__version__ = '' @ [dquote] @ v @ [dquote])))
            \<and> (\<forall>q. q \<noteq> [] \<and> q \<noteq> about_file self \<and> path_exists (files w) (root @ q)
                  \<longrightarrow> map_of (files w2) (root2 @ q) = map_of (files w) (root @ q))
         else root2 = root \<and> files w2 = files w"
proof -
  obtain r1 s1 w1 where v: "version self w = (r1, s1, w1)" by (cases "version self w")
  note ve = version_effect [OF v]
  obtain v1 where v1: "r1 = Inr v1"
    using assms(2,5) v by (cases r1) (auto simp: prepare_root_def)
  show ?thesis
  proof (cases "path_exists (files w1) (root @ [''.git'', ''config'']) \<and> CHR ''+'' \<in> set v1")
    case False
    then have "root2 = root" "files w2 = files w"
      using assms(2,5) v v1 ve by (auto simp: prepare_root_def)
    then show ?thesis using False v v1 ve by auto
  next
    case True
    then have T: "path_exists (files w1) (root @ [''.git'', ''config''])" "CHR ''+'' \<in> set v1"
      by simp_all
    obtain r2 s2 w3 where c: "working_copy s1 root tmp_dir w1 = (r2, s2, w3)"
      by (cases "working_copy s1 root tmp_dir w1")
    have r2: "r2 = Inr root2" and s2: "s2 = self2" and fw: "files w2 = files w3"
      using assms(2,5) v v1 T c by (cases r2; auto simp: prepare_root_def)+
    have h1: "\<not> hasattr s1 ''__version''" using version_keeps_no_cache [OF assms(1) v] .
    have h2: "project_root w1 = Inr root" using ve assms(2) by simp
    have ab: "about_file s1 = about_file self" using ve by (simp add: about_file_def)
    note ok = working_copy_ok [OF h1 h2 T(1) assms(3,4) c [unfolded r2 s2]]
    have cond: "path_exists (files w) (root @ [''.git'', ''config''])
            \<and> (\<exists>v. fst (version self w) = Inr v \<and> CHR ''+'' \<in> set v)"
      using T v v1 ve by auto
    have f1: "files w1 = files w" using ve by simp
    have A: "root2 = tmp_dir @ [''working-copy'']" and B: "root2 \<noteq> root"
      using ok by blast+
    have C: "\<exists>v. dyn self2 ''_Wheels__version'' = Some (Str v) \<and> CHR ''+'' \<in> set v
                  \<and> map_of (files w2) (root2 @ about_file self)
                      = Some (File (''__version__ = '' @ [dquote] @ v @ [dquote]))"
      using ok unfolding fw ab by blast
    have D: "\<forall>q. q \<noteq> [] \<and> q \<noteq> about_file self \<and> path_exists (files w) (root @ q)
                  \<longrightarrow> map_of (files w2) (root2 @ q) = map_of (files w) (root @ q)"
      using ok unfolding fw ab f1 by blast
    show ?thesis using cond A B C D by (simp only: if_True simp_thms)
  qed
qed

subsection \<open>The working copy\<close>

text \<open>
  C4: let the temporary directory and the project root lie outside each other and let
  the packaging tool leave every path below the project root as it is. When the
  preparation of the root (lines 108 to 120 of \<open>_build_wheel\<close>) succeeds, the tree was
  copied to \<open><tmp>/working-copy\<close> and the marker of the copy was rewritten if and only
  if the root has \<open>.git/config\<close> and \<open>version()\<close> holds a \<open>+\<close>. In that case the
  marker of the copy holds exactly \<open>__version__ = "v"\<close> for the version \<open>v\<close> that
  \<open>version()\<close> resolved for the write and that the object now stores, every other
  entry of the copy is the entry of the original, and the tool is run on the copy;
  otherwise the tool is run on the original root and no file was written. In every case,
  failure included, every path below the original root holds after the preparation and
  after the whole of \<open>_build_wheel\<close> what it held before.
\<close>

theorem build_wheel_copies_iff_unreleased:
  assumes "\<not> hasattr self ''__version''" and "project_root w = Inr root"
    and "\<not> prefix root tmp_dir" and "\<not> prefix tmp_dir root"
    and "\<forall>r f p. prefix root p \<longrightarrow> map_of (snd (pip_wheel w tmp_dir r f)) p = map_of f p"
  shows "(\<forall>root2 self2 w2. prepare_root self tmp_dir w = (Inr root2, self2, w2) \<longrightarrow>
           (if path_exists (files w) (root @ [''.git'', ''config''])
               \<and> (\<exists>v. fst (version self w) = Inr v \<and> CHR ''+'' \<in> set v)
            then root2 = tmp_dir @ [''working-copy''] \<and> root2 \<noteq> root
               \<and> (\<exists>v. dyn self2 ''_Wheels__version'' = Some (Str v) \<and> CHR ''+'' \<in> set v
                     \<and> map_of (files w2) (root2 @ about_file self)
                         = Some (File (''__version__ = '' @ [dquote] @ v @ [dquote])))
               \<and> (\<forall>q. q \<noteq> [] \<and> q \<noteq> about_file self \<and> path_exists (files w) (root @ q)
                     \<longrightarrow> map_of (files w2) (root2 @ q) = map_of (files w) (root @ q))
            else root2 = root \<and> files w2 = files w))
       \<and> (\<forall>p. prefix root p \<longrightarrow>
             map_of (files (snd (snd (prepare_root self tmp_dir w)))) p = map_of (files w) p
             \<and> map_of (files (snd (snd (build_wheel self tmp_dir verbose w)))) p
                 = map_of (files w) p)"
proof -
  have one: "\<forall>root2 self2 w2. prepare_root self tmp_dir w = (Inr root2, self2, w2) \<longrightarrow>
           (if path_exists (files w) (root @ [''.git'', ''config''])
               \<and> (\<exists>v. fst (version self w) = Inr v \<and> CHR ''+'' \<in> set v)
            then root2 = tmp_dir @ [''working-copy''] \<and> root2 \<noteq> root
               \<and> (\<exists>v. dyn self2 ''_Wheels__version'' = Some (Str v) \<and> CHR ''+'' \<in> set v
                     \<and> map_of (files w2) (root2 @ about_file self)
                         = Some (File (''__version__ = '' @ [dquote] @ v @ [dquote])))
               \<and> (\<forall>q. q \<noteq> [] \<and> q \<noteq> about_file self \<and> path_exists (files w) (root @ q)
                     \<longrightarrow> map_of (files w2) (root2 @ q) = map_of (files w) (root @ q))
            else root2 = root \<and> files w2 = files w)"
    using prepare_root_cases [OF assms(1-4)] by blast
  have two: "map_of (files (snd (snd (prepare_root self tmp_dir w)))) p = map_of (files w) p
             \<and> map_of (files (snd (snd (build_wheel self tmp_dir verbose w)))) p
                 = map_of (files w) p" if p: "prefix root p" for p
  proof -
    obtain r2 s2 w2 where pr: "prepare_root self tmp_dir w = (r2, s2, w2)"
      by (cases "prepare_root self tmp_dir w")
    have f2: "map_of (files w2) p = map_of (files w) p"
      using prepare_root_frame [OF assms(2-4) pr p] .
    have pw: "pip_wheel w2 = pip_wheel w" using prepare_root_effect [OF pr] by simp
    show ?thesis
    proof (cases r2)
      case (Inl e)
      then show ?thesis using pr f2 by (simp add: build_wheel_prepare_failed)
    next
      case (Inr root2)
      obtain failure f where t: "pip_wheel w2 tmp_dir root2 (files w2) = (failure, f)"
        by (cases "pip_wheel w2 tmp_dir root2 (files w2)")
      have "map_of f p = map_of (files w2) p"
        using assms(5) p t pw by (metis snd_conv)
      moreover have "files (snd (snd (build_wheel self tmp_dir verbose w))) = f"
        using build_wheel_after_prepare [OF _ t, where self = self and verbose = verbose] pr Inr
        by simp
      ultimately show ?thesis using pr f2 by simp
    qed
  qed
  show ?thesis using one two by blast
qed

end
